theory Spec2Isabelle
  imports Main
begin

section \<open>The SQLite store of config/database.js\<close>

text \<open>
  A stored value is NULL, an integer or a text; booleans are the integers 0 and 1, as in
  SQLite. A row maps column names to values; a column that a row does not mention reads
  as NULL.
\<close>

datatype sqlval = Null | IntV int | TextV string

type_synonym row = "(string \<times> sqlval) list"

definition getcol :: "row \<Rightarrow> string \<Rightarrow> sqlval" where
  "getcol r c = (case map_of r c of Some v \<Rightarrow> v | None \<Rightarrow> Null)"

fun setcol :: "string \<Rightarrow> sqlval \<Rightarrow> row \<Rightarrow> row" where
  "setcol c v [] = [(c, v)]"
| "setcol c v ((k, w) # r) = (if k = c then (k, v) # r else (k, w) # setcol c v r)"

datatype dflt = NoDefault | DefaultVal sqlval | CurrentTimestamp | AutoIncrement

record column =
  cname :: string
  notnull :: bool
  uniq :: bool
  dflt :: dflt

definition col :: "string \<Rightarrow> bool \<Rightarrow> bool \<Rightarrow> dflt \<Rightarrow> column" where
  "col n nn u d = \<lparr>cname = n, notnull = nn, uniq = u, dflt = d\<rparr>"

record table_schema =
  tname :: string
  tcols :: "column list"
  tcheck :: "row \<Rightarrow> bool"

text \<open>The five CREATE TABLE statements of createTables, column by column.\<close>

definition visa_applications_schema :: table_schema where
  "visa_applications_schema = \<lparr>tname = ''visa_applications'', tcols =
     [col ''id'' True True AutoIncrement,
      col ''application_id'' True True NoDefault,
      col ''full_name'' True False NoDefault,
      col ''email'' True False NoDefault,
      col ''phone'' True False NoDefault,
      col ''nationality'' True False NoDefault,
      col ''passport_number'' True False NoDefault,
      col ''visa_type'' True False NoDefault,
      col ''purpose_of_visit'' True False NoDefault,
      col ''duration_of_stay'' True False NoDefault,
      col ''arrival_date'' True False NoDefault,
      col ''departure_date'' True False NoDefault,
      col ''accommodation_details'' False False NoDefault,
      col ''sponsor_information'' False False NoDefault,
      col ''previous_uae_visit'' False False NoDefault,
      col ''criminal_record'' False False NoDefault,
      col ''medical_conditions'' False False NoDefault,
      col ''emergency_contact_name'' False False NoDefault,
      col ''emergency_contact_phone'' False False NoDefault,
      col ''emergency_contact_relationship'' False False NoDefault,
      col ''passport_copy_path'' False False NoDefault,
      col ''photo_path'' False False NoDefault,
      col ''cv_path'' False False NoDefault,
      col ''additional_documents_path'' False False NoDefault,
      col ''status'' False False (DefaultVal (TextV ''pending'')),
      col ''created_at'' False False CurrentTimestamp,
      col ''updated_at'' False False CurrentTimestamp],
    tcheck = (\<lambda>r. True)\<rparr>"

definition contact_messages_schema :: table_schema where
  "contact_messages_schema = \<lparr>tname = ''contact_messages'', tcols =
     [col ''id'' True True AutoIncrement,
      col ''message_id'' True True NoDefault,
      col ''full_name'' True False NoDefault,
      col ''email'' True False NoDefault,
      col ''phone'' False False NoDefault,
      col ''inquiry_type'' True False NoDefault,
      col ''subject'' True False NoDefault,
      col ''message'' True False NoDefault,
      col ''preferred_contact'' False False (DefaultVal (TextV ''email'')),
      col ''urgency_level'' False False (DefaultVal (TextV ''medium'')),
      col ''newsletter_subscription'' False False (DefaultVal (IntV 0)),
      col ''status'' False False (DefaultVal (TextV ''new'')),
      col ''created_at'' False False CurrentTimestamp,
      col ''updated_at'' False False CurrentTimestamp],
    tcheck = (\<lambda>r. True)\<rparr>"

text \<open>
  The feedback table carries the only CHECK constraint:
  \<^verbatim>\<open>CHECK (service_rating >= 1 AND service_rating <= 5)\<close>. A text that is no number
  compares above every integer in SQLite, so it fails the upper bound; NULL passes a CHECK.
\<close>

definition feedback_check :: "row \<Rightarrow> bool" where
  "feedback_check r = (case getcol r ''service_rating'' of
       Null \<Rightarrow> True
     | IntV n \<Rightarrow> 1 \<le> n \<and> n \<le> 5
     | TextV s \<Rightarrow> False)"

definition feedback_schema :: table_schema where
  "feedback_schema = \<lparr>tname = ''feedback'', tcols =
     [col ''id'' True True AutoIncrement,
      col ''feedback_id'' True True NoDefault,
      col ''full_name'' True False NoDefault,
      col ''email'' True False NoDefault,
      col ''phone'' False False NoDefault,
      col ''visa_type'' False False NoDefault,
      col ''service_rating'' True False NoDefault,
      col ''would_recommend'' True False NoDefault,
      col ''feedback_title'' True False NoDefault,
      col ''feedback_message'' True False NoDefault,
      col ''aspects_impressed'' False False NoDefault,
      col ''allow_public_display'' False False (DefaultVal (IntV 0)),
      col ''allow_contact'' False False (DefaultVal (IntV 0)),
      col ''status'' False False (DefaultVal (TextV ''pending'')),
      col ''is_featured'' False False (DefaultVal (IntV 0)),
      col ''created_at'' False False CurrentTimestamp,
      col ''updated_at'' False False CurrentTimestamp],
    tcheck = feedback_check\<rparr>"

definition newsletter_subscriptions_schema :: table_schema where
  "newsletter_subscriptions_schema = \<lparr>tname = ''newsletter_subscriptions'', tcols =
     [col ''id'' True True AutoIncrement,
      col ''email'' True True NoDefault,
      col ''full_name'' False False NoDefault,
      col ''subscription_date'' False False CurrentTimestamp,
      col ''is_active'' False False (DefaultVal (IntV 1)),
      col ''unsubscribe_token'' False True NoDefault,
      col ''created_at'' False False CurrentTimestamp,
      col ''updated_at'' False False CurrentTimestamp],
    tcheck = (\<lambda>r. True)\<rparr>"

definition application_status_log_schema :: table_schema where
  "application_status_log_schema = \<lparr>tname = ''application_status_log'', tcols =
     [col ''id'' True True AutoIncrement,
      col ''application_id'' True False NoDefault,
      col ''old_status'' False False NoDefault,
      col ''new_status'' True False NoDefault,
      col ''notes'' False False NoDefault,
      col ''changed_by'' False False (DefaultVal (TextV ''system'')),
      col ''created_at'' False False CurrentTimestamp],
    tcheck = (\<lambda>r. True)\<rparr>"

record db =
  visa_applications :: "row list"
  contact_messages :: "row list"
  feedback :: "row list"
  newsletter_subscriptions :: "row list"
  application_status_log :: "row list"

subsection \<open>Statements\<close>

text \<open>
  What can go wrong in a request: SQLite rejects a statement, the JavaScript names an
  identifier that is not in scope, or the handler throws an AppError with a status code,
  a message and a code.
\<close>

datatype error = SqlError string | ReferenceError string | AppError nat string string

definition column_names :: "table_schema \<Rightarrow> string list" where
  "column_names S = map cname (tcols S)"

definition missing_column :: "table_schema \<Rightarrow> string list \<Rightarrow> string option" where
  "missing_column S cs = find (\<lambda>c. c \<notin> set (column_names S)) cs"

definition no_such_column :: "string \<Rightarrow> error" where
  "no_such_column c = SqlError (''SQLITE_ERROR: no such column: '' @ c)"

text \<open>A WHERE clause of the source is a conjunction of equalities; NULL equals nothing.\<close>

type_synonym cond = "(string \<times> sqlval) list"

definition sql_eq :: "sqlval \<Rightarrow> sqlval \<Rightarrow> bool" where
  "sql_eq a b = (a \<noteq> Null \<and> a = b)"

definition row_matches :: "cond \<Rightarrow> row \<Rightarrow> bool" where
  "row_matches w r = list_all (\<lambda>(c, v). sql_eq (getcol r c) v) w"

text \<open>The select list gives each column with the name it is returned under (\<open>AS\<close>).\<close>

definition project :: "(string \<times> string) list \<Rightarrow> row \<Rightarrow> row" where
  "project sel r = map (\<lambda>(c, a). (a, getcol r c)) sel"

definition star :: "table_schema \<Rightarrow> (string \<times> string) list" where
  "star S = map (\<lambda>c. (c, c)) (column_names S)"

definition sql_select ::
  "table_schema \<Rightarrow> row list \<Rightarrow> (string \<times> string) list \<Rightarrow> cond \<Rightarrow> error + row list" where
  "sql_select S rows sel w =
     (case missing_column S (map fst sel @ map fst w) of
        Some c \<Rightarrow> Inl (no_such_column c)
      | None \<Rightarrow> Inr (map (project sel) (filter (row_matches w) rows)))"

text \<open>\<open>SELECT COUNT(*) ... WHERE ...\<close>\<close>

definition sql_count :: "table_schema \<Rightarrow> row list \<Rightarrow> cond \<Rightarrow> error + int" where
  "sql_count S rows w =
     (case missing_column S (map fst w) of
        Some c \<Rightarrow> Inl (no_such_column c)
      | None \<Rightarrow> Inr (int (length (filter (row_matches w) rows))))"

text \<open>getRow resolves to the first row of the result, or to undefined.\<close>

definition getRow ::
  "table_schema \<Rightarrow> row list \<Rightarrow> (string \<times> string) list \<Rightarrow> cond \<Rightarrow> error + row option" where
  "getRow S rows sel w = (case sql_select S rows sel w of
       Inl e \<Rightarrow> Inl e
     | Inr [] \<Rightarrow> Inr None
     | Inr (r # rs) \<Rightarrow> Inr (Some r))"

text \<open>
  The list queries add \<open>ORDER BY column ASC|DESC LIMIT ? OFFSET ?\<close>. NULL sorts first,
  integers before texts, texts by their characters. A negative LIMIT means no limit and a
  negative OFFSET means none, as in SQLite.
\<close>

fun str_less :: "string \<Rightarrow> string \<Rightarrow> bool" where
  "str_less [] [] = False"
| "str_less [] (y # ys) = True"
| "str_less (x # xs) [] = False"
| "str_less (x # xs) (y # ys) =
     ((of_char x :: nat) < of_char y \<or> (x = y \<and> str_less xs ys))"

fun sql_less :: "sqlval \<Rightarrow> sqlval \<Rightarrow> bool" where
  "sql_less Null Null = False"
| "sql_less Null v = True"
| "sql_less (IntV a) (IntV b) = (a < b)"
| "sql_less (IntV a) (TextV t) = True"
| "sql_less (TextV s) (TextV t) = str_less s t"
| "sql_less v w = False"

fun insert_by :: "('a \<Rightarrow> 'a \<Rightarrow> bool) \<Rightarrow> 'a \<Rightarrow> 'a list \<Rightarrow> 'a list" where
  "insert_by lt x [] = [x]"
| "insert_by lt x (y # ys) = (if lt y x then y # insert_by lt x ys else x # y # ys)"

definition order_by :: "string \<Rightarrow> bool \<Rightarrow> row list \<Rightarrow> row list" where
  "order_by c desc rows =
     foldr (insert_by (\<lambda>a b. if desc then sql_less (getcol b c) (getcol a c)
                              else sql_less (getcol a c) (getcol b c))) rows []"

definition limit_offset :: "int \<Rightarrow> int \<Rightarrow> 'a list \<Rightarrow> 'a list" where
  "limit_offset lim off xs =
     (let ys = drop (nat off) xs in if lim < 0 then ys else take (nat lim) ys)"

definition getRows ::
  "table_schema \<Rightarrow> row list \<Rightarrow> (string \<times> string) list \<Rightarrow> cond \<Rightarrow> string \<Rightarrow> bool \<Rightarrow>
   int \<Rightarrow> int \<Rightarrow> error + row list" where
  "getRows S rows sel w ord desc lim off =
     (case missing_column S (map fst sel @ map fst w @ [ord]) of
        Some c \<Rightarrow> Inl (no_such_column c)
      | None \<Rightarrow> Inr (map (project sel)
                 (limit_offset lim off (order_by ord desc (filter (row_matches w) rows)))))"

text \<open>
  INSERT names its columns; every other column takes its default. The statement fails,
  and stores nothing, when a named column does not exist or a NOT NULL, CHECK or UNIQUE
  constraint is violated. The key \<open>id\<close> counts upwards.
\<close>

definition next_id :: "row list \<Rightarrow> int" where
  "next_id rows =
     1 + fold (\<lambda>r m. case getcol r ''id'' of IntV n \<Rightarrow> max n m | _ \<Rightarrow> m) rows 0"

definition default_value :: "string \<Rightarrow> row list \<Rightarrow> dflt \<Rightarrow> sqlval" where
  "default_value ts rows d = (case d of
       NoDefault \<Rightarrow> Null
     | DefaultVal v \<Rightarrow> v
     | CurrentTimestamp \<Rightarrow> TextV ts
     | AutoIncrement \<Rightarrow> IntV (next_id rows))"

definition new_row :: "table_schema \<Rightarrow> string \<Rightarrow> row list \<Rightarrow> row \<Rightarrow> row" where
  "new_row S ts rows given =
     map (\<lambda>c. (cname c, case map_of given (cname c) of
                           Some v \<Rightarrow> v
                         | None \<Rightarrow> default_value ts rows (dflt c))) (tcols S)"

definition notnull_ok :: "table_schema \<Rightarrow> row \<Rightarrow> bool" where
  "notnull_ok S r = list_all (\<lambda>c. \<not> notnull c \<or> getcol r (cname c) \<noteq> Null) (tcols S)"

definition unique_ok :: "table_schema \<Rightarrow> row list \<Rightarrow> row \<Rightarrow> bool" where
  "unique_ok S rows r =
     list_all (\<lambda>c. \<not> uniq c \<or> getcol r (cname c) = Null
                   \<or> getcol r (cname c) \<notin> set (map (\<lambda>r'. getcol r' (cname c)) rows)) (tcols S)"

definition sql_insert ::
  "table_schema \<Rightarrow> string \<Rightarrow> row list \<Rightarrow> string list \<Rightarrow> sqlval list \<Rightarrow> error + row list" where
  "sql_insert S ts rows cols vals =
     (case missing_column S cols of
        Some c \<Rightarrow> Inl (SqlError (''SQLITE_ERROR: table '' @ tname S @ '' has no column named '' @ c))
      | None \<Rightarrow> let r = new_row S ts rows (zip cols vals) in
        if \<not> notnull_ok S r then Inl (SqlError ''SQLITE_CONSTRAINT: NOT NULL constraint failed'')
        else if \<not> tcheck S r then Inl (SqlError ''SQLITE_CONSTRAINT: CHECK constraint failed'')
        else if \<not> unique_ok S rows r then Inl (SqlError ''SQLITE_CONSTRAINT: UNIQUE constraint failed'')
        else Inr (rows @ [r]))"

text \<open>
  UPDATE sets the named columns in every row the WHERE clause selects. It fails, and
  changes nothing, when a named column does not exist or the changed table would violate
  a constraint.
\<close>

definition sql_update ::
  "table_schema \<Rightarrow> row list \<Rightarrow> (string \<times> sqlval) list \<Rightarrow> cond \<Rightarrow> error + row list" where
  "sql_update S rows sets w =
     (case missing_column S (map fst sets @ map fst w) of
        Some c \<Rightarrow> Inl (no_such_column c)
      | None \<Rightarrow> let upd = (\<lambda>r. fold (\<lambda>(c, v). setcol c v) sets r);
               rows' = map (\<lambda>r. if row_matches w r then upd r else r) rows;
               changed = map upd (filter (row_matches w) rows) in
        if \<not> list_all (notnull_ok S) changed
        then Inl (SqlError ''SQLITE_CONSTRAINT: NOT NULL constraint failed'')
        else if \<not> list_all (tcheck S) changed
        then Inl (SqlError ''SQLITE_CONSTRAINT: CHECK constraint failed'')
        else if \<not> list_all (\<lambda>c. \<not> uniq c \<or> cname c \<notin> set (map fst sets)
                  \<or> list_all (\<lambda>r. getcol r (cname c) = Null
                        \<or> count_list (map (\<lambda>r'. getcol r' (cname c)) rows') (getcol r (cname c)) = 1)
                       changed) (tcols S)
        then Inl (SqlError ''SQLITE_CONSTRAINT: UNIQUE constraint failed'')
        else Inr rows')"

section \<open>The environment of a request\<close>

text \<open>
  Everything a handler reads that is neither the request nor the store. The functions of
  the validator and moment libraries that the source calls on e-mail addresses and dates
  are parameters: \<open>moment_day s\<close> is the calendar day (counted from 1970-01-01) of
  \<open>moment(s)\<close>, or None when the moment is invalid, and \<open>diff_days a b\<close> is
  \<open>moment(a).diff(moment(b), 'days')\<close>, or None when it is NaN. \<open>random_digits\<close> are the
  base-36 digits of \<open>Math.random()\<close> after the point (none when it returns 0),
  \<open>random_token\<close> is \<open>crypto.randomBytes(32).toString('hex')\<close>, and \<open>transport_ok\<close>
  says whether the mail transport delivers a message with the given recipient and subject.
\<close>

record env =
  isEmail :: "string \<Rightarrow> bool"
  normalizeEmail :: "string \<Rightarrow> string"
  isISO8601 :: "string \<Rightarrow> bool"
  moment_day :: "string \<Rightarrow> int option"
  diff_days :: "string \<Rightarrow> string \<Rightarrow> int option"
  today :: int
  date_now :: nat
  random_digits :: "nat list"
  random_token :: string
  current_timestamp :: string
  transport_ok :: "string \<Rightarrow> string \<Rightarrow> bool"
  development :: bool
  email_to :: "string option"

section \<open>Strings\<close>

definition is_space :: "char \<Rightarrow> bool" where
  "is_space c = (c \<in> set [CHR '' '', CHR 0x09, CHR 0x0A, CHR 0x0B, CHR 0x0C, CHR 0x0D])"

definition is_digit :: "char \<Rightarrow> bool" where
  "is_digit c = (c \<in> set ''0123456789'')"

definition is_lower :: "char \<Rightarrow> bool" where
  "is_lower c = (c \<in> set ''abcdefghijklmnopqrstuvwxyz'')"

definition is_upper :: "char \<Rightarrow> bool" where
  "is_upper c = (c \<in> set ''ABCDEFGHIJKLMNOPQRSTUVWXYZ'')"

definition trim :: "string \<Rightarrow> string" where
  "trim s = rev (dropWhile is_space (rev (dropWhile is_space s)))"

definition upper_char :: "char \<Rightarrow> char" where
  "upper_char c =
     (case map_of (zip ''abcdefghijklmnopqrstuvwxyz'' ''ABCDEFGHIJKLMNOPQRSTUVWXYZ'') c of
        Some u \<Rightarrow> u | None \<Rightarrow> c)"

definition toUpperCase :: "string \<Rightarrow> string" where
  "toUpperCase s = map upper_char s"

definition lower_char :: "char \<Rightarrow> char" where
  "lower_char c =
     (case map_of (zip ''ABCDEFGHIJKLMNOPQRSTUVWXYZ'' ''abcdefghijklmnopqrstuvwxyz'') c of
        Some l \<Rightarrow> l | None \<Rightarrow> c)"

definition toLowerCase :: "string \<Rightarrow> string" where
  "toLowerCase s = map lower_char s"

definition substr :: "string \<Rightarrow> nat \<Rightarrow> nat \<Rightarrow> string" where
  "substr s start len = take len (drop start s)"

definition digit_char :: "nat \<Rightarrow> char" where
  "digit_char n = ''0123456789'' ! (n mod 10)"

definition digit_value :: "char \<Rightarrow> nat" where
  "digit_value c = length (takeWhile (\<lambda>x. x \<noteq> c) ''0123456789'')"

fun digits10 :: "nat \<Rightarrow> string" where
  "digits10 n = (if n < 10 then [digit_char n] else digits10 (n div 10) @ [digit_char n])"

declare digits10.simps [simp del]

section \<open>Validation chains (express-validator)\<close>

text \<open>
  A body field is a string or is absent (undefined). A chain names a field and lists its
  sanitizers and validators in the order the source writes them. Every validator of a
  chain runs, on the value as the sanitizers before it left it, whether or not an earlier
  one failed, and each failure adds an error with the field's path, the message given by
  \<open>withMessage\<close> and the value. A chain marked \<open>optional()\<close> is skipped when the field
  is absent. Standard validators see the value as a string, the empty string when it is
  absent; a \<open>custom\<close> validator sees the value itself and the body, and its result is the
  message of the Error it throws, if any.
\<close>

datatype verror = ValidationError (path: string) (msg: string) (errvalue: "string option")

type_synonym body = "string \<Rightarrow> string option"

datatype step =
    Sanitize "string \<Rightarrow> string"
  | Validate "string \<Rightarrow> bool" string
  | Custom "body \<Rightarrow> string option \<Rightarrow> string option"

record chain =
  cfield :: string
  optional :: bool
  steps :: "step list"

definition to_string :: "string option \<Rightarrow> string" where
  "to_string v = (case v of None \<Rightarrow> [] | Some s \<Rightarrow> s)"

fun run_steps :: "string \<Rightarrow> body \<Rightarrow> step list \<Rightarrow> string option \<Rightarrow> verror list \<times> string option" where
  "run_steps f b [] v = ([], v)"
| "run_steps f b (Sanitize g # ss) v = run_steps f b ss (Some (g (to_string v)))"
| "run_steps f b (Validate p m # ss) v =
     (let (es, v') = run_steps f b ss v
      in ((if p (to_string v) then [] else [ValidationError f m v]) @ es, v'))"
| "run_steps f b (Custom g # ss) v =
     (let (es, v') = run_steps f b ss v
      in ((case g b v of None \<Rightarrow> [] | Some m \<Rightarrow> [ValidationError f m v]) @ es, v'))"

definition run_chain :: "chain \<Rightarrow> body \<Rightarrow> verror list \<times> body" where
  "run_chain c b =
     (if optional c \<and> b (cfield c) = None then ([], b)
      else let (es, v) = run_steps (cfield c) b (steps c) (b (cfield c))
           in (es, b(cfield c := v)))"

fun run_chains :: "chain list \<Rightarrow> body \<Rightarrow> verror list \<times> body" where
  "run_chains [] b = ([], b)"
| "run_chains (c # cs) b =
     (let (es, b') = run_chain c b; (es', b'') = run_chains cs b' in (es @ es', b''))"

subsection \<open>The validators the routes use (validator.js)\<close>

definition isLength :: "nat \<Rightarrow> nat option \<Rightarrow> string \<Rightarrow> bool" where
  "isLength mn mx s = (mn \<le> length s \<and> (case mx of None \<Rightarrow> True | Some m \<Rightarrow> length s \<le> m))"

definition notEmpty :: "string \<Rightarrow> bool" where
  "notEmpty s = (s \<noteq> [])"

definition isIn :: "string list \<Rightarrow> string \<Rightarrow> bool" where
  "isIn vs s = (s \<in> set vs)"

text \<open>\<^verbatim>\<open>/^[a-zA-Z\s'-]+$/\<close>\<close>

definition matches_name :: "string \<Rightarrow> bool" where
  "matches_name s = (s \<noteq> [] \<and>
     list_all (\<lambda>c. is_lower c \<or> is_upper c \<or> is_space c \<or> c = CHR 0x27 \<or> c = CHR ''-'') s)"

text \<open>\<^verbatim>\<open>/^[+]?[1-9]\d{1,14}$/\<close>\<close>

definition matches_phone :: "string \<Rightarrow> bool" where
  "matches_phone s =
     (let t = (case s of [] \<Rightarrow> [] | c # r \<Rightarrow> if c = CHR ''+'' then r else s)
      in case t of [] \<Rightarrow> False
         | c # r \<Rightarrow> c \<in> set ''123456789'' \<and> 1 \<le> length r \<and> length r \<le> 14
                    \<and> list_all is_digit r)"

text \<open>\<^verbatim>\<open>/^[A-Z0-9]+$/\<close>\<close>

definition matches_upper_alnum :: "string \<Rightarrow> bool" where
  "matches_upper_alnum s = (s \<noteq> [] \<and> list_all (\<lambda>c. is_upper c \<or> is_digit c) s)"

text \<open>
  \<^verbatim>\<open>/^PREFIX-\d+-[A-Z0-9]+$/\<close>, the shape of every identifier: \<open>UAE\<close>, \<open>CONTACT\<close>,
  \<open>FB\<close> and \<open>NL\<close> are the prefixes. The digits cannot contain the hyphen, so the
  longest run of digits is the only candidate for \<open>\d+\<close>.
\<close>

definition matches_id :: "string \<Rightarrow> string \<Rightarrow> bool" where
  "matches_id p s =
     (take (length p + 1) s = p @ ''-'' \<and>
      (let r = drop (length p + 1) s;
           ds = takeWhile is_digit r
       in ds \<noteq> [] \<and> (case drop (length ds) r of
                         [] \<Rightarrow> False
                       | c # suf \<Rightarrow> c = CHR ''-'' \<and> matches_upper_alnum suf)))"

text \<open>
  isInt: an optional sign and decimal digits (leading zeroes are allowed by default),
  and the number within the bounds.
\<close>

definition nat_of_digits :: "string \<Rightarrow> nat" where
  "nat_of_digits s = foldl (\<lambda>n c. 10 * n + digit_value c) 0 s"

definition int_syntax :: "string \<Rightarrow> bool" where
  "int_syntax s =
     (let t = (case s of [] \<Rightarrow> [] | c # r \<Rightarrow> if c = CHR ''+'' \<or> c = CHR ''-'' then r else s)
      in t \<noteq> [] \<and> list_all is_digit t)"

definition number_of :: "string \<Rightarrow> int" where
  "number_of s = (case s of [] \<Rightarrow> 0
     | c # r \<Rightarrow> if c = CHR ''-'' then - int (nat_of_digits r)
                else if c = CHR ''+'' then int (nat_of_digits r)
                else int (nat_of_digits s))"

definition isInt :: "int \<Rightarrow> int \<Rightarrow> string \<Rightarrow> bool" where
  "isInt mn mx s = (int_syntax s \<and> mn \<le> number_of s \<and> number_of s \<le> mx)"

section \<open>Requests, responses and the middleware around a handler\<close>

text \<open>
  A request carries its body fields, the \<open>preferences\<close> array of the newsletter forms
  (absent, or a list of strings), its route parameters, its query string and the stored
  names of the files multer accepted, by form field. Body fields are strings: a JSON
  number stands as its decimal text.
\<close>

record request =
  body :: body
  preferences :: "string list option"
  params :: "string \<Rightarrow> string"
  query :: "string \<Rightarrow> string option"
  files :: "string \<Rightarrow> string list"

text \<open>
  A response is the status code and the members of the JSON envelope. \<open>data\<close> lists the
  identifying members of the payload; its timestamps and fixed advice texts are left out.
  A list response carries its page of rows in \<open>records\<close>.
\<close>

record entry =
  field :: string
  message :: string
  "value" :: "string option"

record response =
  statusCode :: nat
  status :: string
  res_message :: string
  res_code :: "string option"
  errors :: "entry list"
  data :: "(string \<times> string) list"
  records :: "row list"

text \<open>middleware/errorHandler.js, handleValidationErrors.\<close>

definition handleValidationErrors :: "verror list \<Rightarrow> response option" where
  "handleValidationErrors errs =
     (if errs \<noteq> [] then
        Some \<lparr>statusCode = 400, status = ''fail'', res_message = ''Validation failed'',
              res_code = Some ''VALIDATION_ERROR'',
              errors = map (\<lambda>e. \<lparr>field = path e, message = msg e, value = errvalue e\<rparr>) errs,
              data = [], records = []\<rparr>
      else None)"

text \<open>
  middleware/errorHandler.js, the AppError constructor and errorHandler. An error without
  a statusCode gets 500. In development the error's own message and code are sent; otherwise
  only an operational error (an AppError) shows them.
\<close>

definition error_statusCode :: "error \<Rightarrow> nat" where
  "error_statusCode e = (case e of AppError sc m c \<Rightarrow> sc | _ \<Rightarrow> 500)"

definition error_status :: "error \<Rightarrow> string" where
  "error_status e = (case e of
       AppError sc m c \<Rightarrow> if take 1 (digits10 sc) = ''4'' then ''fail'' else ''error''
     | _ \<Rightarrow> ''error'')"

definition error_message :: "error \<Rightarrow> string" where
  "error_message e = (case e of AppError sc m c \<Rightarrow> m | SqlError m \<Rightarrow> m
     | ReferenceError x \<Rightarrow> x @ '' is not defined'')"

definition error_code :: "error \<Rightarrow> string option" where
  "error_code e = (case e of AppError sc m c \<Rightarrow> Some c | SqlError m \<Rightarrow> Some ''SQLITE_ERROR''
     | ReferenceError x \<Rightarrow> None)"

definition isOperational :: "error \<Rightarrow> bool" where
  "isOperational e = (case e of AppError sc m c \<Rightarrow> True | _ \<Rightarrow> False)"

definition errorHandler :: "env \<Rightarrow> error \<Rightarrow> response" where
  "errorHandler E e =
     (if development E \<or> isOperational e then
        \<lparr>statusCode = error_statusCode e, status = error_status e,
         res_message = error_message e, res_code = error_code e, errors = [], data = [],
         records = []\<rparr>
      else
        \<lparr>statusCode = 500, status = ''error'',
         res_message = ''Something went wrong! Please try again later.'',
         res_code = Some ''INTERNAL_SERVER_ERROR'', errors = [], data = [], records = []\<rparr>)"

text \<open>
  What a handler leaves behind: the response it sent or the error it threw, the store,
  the mails the transport delivered (recipient and subject) and the lines written with
  \<open>console.error\<close>. catchAsync hands a thrown error to errorHandler.
\<close>

record outcome =
  result :: "error + response"
  store :: db
  outbox :: "(string \<times> string) list"
  console :: "string list"

record reply =
  resp :: response
  db_after :: db
  sent :: "(string \<times> string) list"
  logged :: "string list"

definition throw :: "error \<Rightarrow> db \<Rightarrow> outcome" where
  "throw e d = \<lparr>result = Inl e, store = d, outbox = [], console = []\<rparr>"

definition catchAsync :: "env \<Rightarrow> outcome \<Rightarrow> reply" where
  "catchAsync E h =
     \<lparr>resp = (case result h of Inl e \<Rightarrow> errorHandler E e | Inr r \<Rightarrow> r),
      db_after = store h, sent = outbox h, logged = console h\<rparr>"

text \<open>
  A route runs its chains, then handleValidationErrors, then the handler on the sanitized
  body. \<open>extra\<close> are the errors of the element-wise rule on \<open>preferences\<close>, which the
  newsletter forms list after their chains.
\<close>

definition route ::
  "env \<Rightarrow> chain list \<Rightarrow> verror list \<Rightarrow> (request \<Rightarrow> db \<Rightarrow> outcome) \<Rightarrow> request \<Rightarrow> db \<Rightarrow> reply" where
  "route E rules extra handler req d =
     (let (errs, b') = run_chains rules (body req) in
      case handleValidationErrors (errs @ extra) of
        Some r \<Rightarrow> \<lparr>resp = r, db_after = d, sent = [], logged = []\<rparr>
      | None \<Rightarrow> catchAsync E (handler (req\<lparr>body := b'\<rparr>) d))"

definition success :: "nat \<Rightarrow> string \<Rightarrow> (string \<times> string) list \<Rightarrow> response" where
  "success sc m dat =
     \<lparr>statusCode = sc, status = ''success'', res_message = m, res_code = None,
      errors = [], data = dat, records = []\<rparr>"

subsection \<open>Notification mails (utils/emailService.js, sendEmail)\<close>

text \<open>
  sendEmail returns when the transport delivers and throws when it does not. The handlers
  send their mails inside one \<open>try\<close>: the first failure skips the remaining mails, and
  the \<open>catch\<close> writes one line and goes on.
\<close>

fun send_all :: "env \<Rightarrow> (string \<times> string) list \<Rightarrow> (string \<times> string) list \<times> bool" where
  "send_all E [] = ([], True)"
| "send_all E ((to, subject) # ms) =
     (if transport_ok E to subject
      then (let (s, ok) = send_all E ms in ((to, subject) # s, ok))
      else ([], False))"

definition try_send :: "env \<Rightarrow> (string \<times> string) list \<Rightarrow> string \<Rightarrow> (string \<times> string) list \<times> string list" where
  "try_send E ms label = (let (s, ok) = send_all E ms in (s, if ok then [] else [label]))"

definition admin_address :: "env \<Rightarrow> string" where
  "admin_address E = (case email_to E of None \<Rightarrow> ''admin@uaevisaservices.com''
     | Some a \<Rightarrow> if a = [] then ''admin@uaevisaservices.com'' else a)"

subsection \<open>Identifiers\<close>

text \<open>
  \<^verbatim>\<open>`FB-${Date.now()}-${Math.random().toString(36).substr(2, 6).toUpperCase()}`\<close>.
  \<open>toString(36)\<close> of a number in [0, 1) is \<open>0.\<close> followed by its digits, and \<open>0\<close>
  for the number 0.
\<close>

definition digit36 :: "nat \<Rightarrow> char" where
  "digit36 d = ''0123456789abcdefghijklmnopqrstuvwxyz'' ! (d mod 36)"

definition random_toString36 :: "env \<Rightarrow> string" where
  "random_toString36 E =
     (if random_digits E = [] then ''0'' else ''0.'' @ map digit36 (random_digits E))"

definition generate_id :: "env \<Rightarrow> string \<Rightarrow> nat \<Rightarrow> string" where
  "generate_id E prefix n =
     prefix @ ''-'' @ digits10 (date_now E) @ ''-'' @ toUpperCase (substr (random_toString36 E) 2 n)"

text \<open>How a JavaScript value is bound to a statement, and \<open>x || null\<close>.\<close>

definition bind :: "string option \<Rightarrow> sqlval" where
  "bind v = (case v of None \<Rightarrow> Null | Some s \<Rightarrow> TextV s)"

definition or_null :: "string option \<Rightarrow> sqlval" where
  "or_null v = (case v of None \<Rightarrow> Null | Some s \<Rightarrow> if s = [] then Null else TextV s)"

definition text_of :: "sqlval \<Rightarrow> string" where
  "text_of v = (case v of TextV s \<Rightarrow> s | _ \<Rightarrow> [])"

text \<open>A text bound to an INTEGER column is stored as the integer it spells.\<close>

definition bind_int :: "string option \<Rightarrow> sqlval" where
  "bind_int v = (case v of None \<Rightarrow> Null
     | Some s \<Rightarrow> if int_syntax s then IntV (number_of s) else TextV s)"

definition truthy :: "sqlval \<Rightarrow> bool" where
  "truthy v = (case v of Null \<Rightarrow> False | IntV n \<Rightarrow> n \<noteq> 0 | TextV s \<Rightarrow> s \<noteq> [])"

section \<open>Newsletter (routes/newsletter.js)\<close>

definition preference_options :: "string list" where
  "preference_options =
     [''visa_updates'', ''policy_changes'', ''travel_tips'', ''promotions'', ''general_news'']"

text \<open>
  \<open>body('preferences.*').optional().isIn([...])\<close>: one error for each element outside the
  vocabulary, under the path of that element.
\<close>

definition preference_errors :: "string list option \<Rightarrow> verror list" where
  "preference_errors ps = (case ps of None \<Rightarrow> []
     | Some xs \<Rightarrow> concat (map (\<lambda>i. if isIn preference_options (xs ! i) then []
           else [ValidationError (''preferences['' @ digits10 i @ '']'')
                   ''Invalid preference option'' (Some (xs ! i))]) [0..<length xs]))"

definition subscriptionValidationRules :: "env \<Rightarrow> chain list" where
  "subscriptionValidationRules E =
     [\<lparr>cfield = ''email'', optional = False, steps =
         [Validate (isEmail E) ''Please provide a valid email address'',
          Sanitize (normalizeEmail E)]\<rparr>,
      \<lparr>cfield = ''name'', optional = True, steps =
         [Sanitize trim,
          Validate (isLength 2 (Some 100)) ''Name must be between 2 and 100 characters'',
          Validate matches_name
            ''Name can only contain letters, spaces, hyphens, and apostrophes'']\<rparr>]"

definition frontend_url :: string where
  "frontend_url = ''http://localhost:3000''"

definition subscribe_handler :: "env \<Rightarrow> request \<Rightarrow> db \<Rightarrow> outcome" where
  "subscribe_handler E req d =
     (let email = body req ''email''; name = body req ''name'' in
      case getRow newsletter_subscriptions_schema (newsletter_subscriptions d)
             (star newsletter_subscriptions_schema) [(''email'', bind email)] of
        Inl e \<Rightarrow> throw e d
      | Inr (Some existingSubscription) \<Rightarrow>
          if truthy (getcol existingSubscription ''is_active'') then
            \<lparr>result = Inr (success 200 ''You are already subscribed to our newsletter''
                [(''email'', to_string email), (''status'', ''already_subscribed'')]),
             store = d, outbox = [], console = []\<rparr>
          else
            (case sql_update newsletter_subscriptions_schema (newsletter_subscriptions d)
                    [(''is_active'', IntV 1), (''full_name'', or_null name),
                     (''unsubscribe_token'', TextV (random_token E)),
                     (''updated_at'', TextV (current_timestamp E))]
                    [(''email'', bind email)] of
               Inl e \<Rightarrow> throw e d
             | Inr rows \<Rightarrow>
                 (let (s, l) = try_send E
                        [(to_string email,
                          ''Newsletter Subscription Reactivated - UAE Visa Services'')]
                        ''Reactivation email failed:'' in
                  \<lparr>result = Inr (success 200 ''Your newsletter subscription has been reactivated''
                      [(''email'', to_string email), (''status'', ''reactivated'')]),
                   store = d\<lparr>newsletter_subscriptions := rows\<rparr>, outbox = s, console = l\<rparr>))
      | Inr None \<Rightarrow>
          (let subscriptionId = generate_id E ''NL'' 6 in
           case sql_insert newsletter_subscriptions_schema (current_timestamp E)
                  (newsletter_subscriptions d)
                  [''email'', ''full_name'', ''unsubscribe_token'', ''is_active'',
                   ''created_at'', ''updated_at'']
                  [bind email, or_null name, TextV (random_token E), IntV 1,
                   TextV (current_timestamp E), TextV (current_timestamp E)] of
             Inl e \<Rightarrow> throw e d
           | Inr rows \<Rightarrow>
               (let (s, l) = try_send E
                      [(to_string email, ''Welcome to UAE Visa Services Newsletter!''),
                       (admin_address E, ''New Newsletter Subscription - '' @ to_string email)]
                      ''Welcome email failed:'' in
                \<lparr>result = Inr (success 201 ''Successfully subscribed to our newsletter!''
                    [(''subscription_id'', subscriptionId), (''email'', to_string email),
                     (''status'', ''subscribed'')]),
                 store = d\<lparr>newsletter_subscriptions := rows\<rparr>, outbox = s, console = l\<rparr>)))"

definition subscribe :: "env \<Rightarrow> request \<Rightarrow> db \<Rightarrow> reply" where
  "subscribe E req d =
     route E (subscriptionValidationRules E) (preference_errors (preferences req))
       (subscribe_handler E) req d"

definition unsubscribeValidationRules :: "chain list" where
  "unsubscribeValidationRules =
     [\<lparr>cfield = ''token'', optional = False, steps =
         [Validate notEmpty ''Unsubscribe token is required'',
          Validate (isLength 64 (Some 64)) ''Invalid unsubscribe token'']\<rparr>]"

definition unsubscribe_handler :: "env \<Rightarrow> request \<Rightarrow> db \<Rightarrow> outcome" where
  "unsubscribe_handler E req d =
     (let token = body req ''token'' in
      case getRow newsletter_subscriptions_schema (newsletter_subscriptions d)
             (star newsletter_subscriptions_schema)
             [(''unsubscribe_token'', bind token), (''status'', TextV ''active'')] of
        Inl e \<Rightarrow> throw e d
      | Inr None \<Rightarrow> throw (AppError 400 ''Invalid or expired unsubscribe token'' ''INVALID_TOKEN'') d
      | Inr (Some subscription) \<Rightarrow>
          (case sql_update newsletter_subscriptions_schema (newsletter_subscriptions d)
                  [(''status'', TextV ''unsubscribed''),
                   (''updated_at'', TextV (current_timestamp E))]
                  [(''unsubscribe_token'', bind token)] of
             Inl e \<Rightarrow> throw e d
           | Inr rows \<Rightarrow>
               (let (s, l) = try_send E
                      [(text_of (getcol subscription ''email''),
                        ''Newsletter Unsubscription Confirmed - UAE Visa Services'')]
                      ''Unsubscribe confirmation email failed:'' in
                \<lparr>result = Inr (success 200
                    ''You have been successfully unsubscribed from our newsletter''
                    [(''email'', text_of (getcol subscription ''email'')),
                     (''status'', ''unsubscribed'')]),
                 store = d\<lparr>newsletter_subscriptions := rows\<rparr>, outbox = s, console = l\<rparr>)))"

definition unsubscribe :: "env \<Rightarrow> request \<Rightarrow> db \<Rightarrow> reply" where
  "unsubscribe E req d = route E unsubscribeValidationRules [] (unsubscribe_handler E) req d"

section \<open>Contact messages (routes/contact.js)\<close>

definition name_chain :: "string \<Rightarrow> string \<Rightarrow> string \<Rightarrow> chain" where
  "name_chain f m1 m2 =
     \<lparr>cfield = f, optional = False, steps =
        [Sanitize trim, Validate (isLength 2 (Some 100)) m1, Validate matches_name m2]\<rparr>"

definition email_chain :: "env \<Rightarrow> chain" where
  "email_chain E =
     \<lparr>cfield = ''email'', optional = False, steps =
        [Validate (isEmail E) ''Please provide a valid email address'',
         Sanitize (normalizeEmail E)]\<rparr>"

definition text_chain :: "string \<Rightarrow> bool \<Rightarrow> nat \<Rightarrow> nat \<Rightarrow> string \<Rightarrow> chain" where
  "text_chain f opt mn mx m =
     \<lparr>cfield = f, optional = opt, steps = [Sanitize trim, Validate (isLength mn (Some mx)) m]\<rparr>"

definition enum_chain :: "string \<Rightarrow> bool \<Rightarrow> string list \<Rightarrow> string \<Rightarrow> chain" where
  "enum_chain f opt vs m = \<lparr>cfield = f, optional = opt, steps = [Validate (isIn vs) m]\<rparr>"

definition phone_chain :: "string \<Rightarrow> bool \<Rightarrow> string \<Rightarrow> chain" where
  "phone_chain f opt m =
     \<lparr>cfield = f, optional = opt, steps = [Sanitize trim, Validate matches_phone m]\<rparr>"


definition default_to :: "string \<Rightarrow> string option \<Rightarrow> string option" where
  "default_to dv v = (case v of None \<Rightarrow> Some dv | Some s \<Rightarrow> Some s)"



text \<open>
  contact.js imports \<open>runQuery\<close> and \<open>getRows\<close> from config/database and nothing else
  (line 3), and calls \<open>getRow\<close> in three handlers. The identifier is not bound in the
  module, so evaluating the call throws a ReferenceError.
\<close>

definition contact_js_getRow ::
  "table_schema \<Rightarrow> row list \<Rightarrow> (string \<times> string) list \<Rightarrow> cond \<Rightarrow> error + row option" where
  "contact_js_getRow S rows sel w = Inl (ReferenceError ''getRow'')"

text \<open>
  The list handlers compute \<open>(page - 1) * limit\<close> and \<open>parseInt\<close> on query strings. A
  parameter that is absent takes its default; one that is an integer is that integer; any
  other text makes the statement's LIMIT and OFFSET no numbers, and the statement fails.
\<close>

definition int_param :: "string option \<Rightarrow> int \<Rightarrow> int option" where
  "int_param v dv = (case v of None \<Rightarrow> Some dv
     | Some s \<Rightarrow> if int_syntax s then Some (number_of s) else None)"

definition present :: "string option \<Rightarrow> bool" where
  "present v = (case v of None \<Rightarrow> False | Some s \<Rightarrow> s \<noteq> [])"

definition filter_on :: "string \<Rightarrow> string option \<Rightarrow> cond" where
  "filter_on c v = (if present v then [(c, bind v)] else [])"

text \<open>\<open>Math.ceil(total / limit)\<close>; no number when the limit is 0.\<close>

definition total_pages :: "int \<Rightarrow> int \<Rightarrow> int option" where
  "total_pages n limit = (if limit = 0 then None else Some (- ((- n) div limit)))"

definition show_int :: "int \<Rightarrow> string" where
  "show_int i = (if i < 0 then ''-'' @ digits10 (nat (- i)) else digits10 (nat i))"

definition pagination :: "int \<Rightarrow> int \<Rightarrow> int \<Rightarrow> (string \<times> string) list" where
  "pagination page limit n =
     [(''current_page'', show_int page), (''per_page'', show_int limit),
      (''total'', show_int n),
      (''total_pages'', case total_pages n limit of None \<Rightarrow> ''null'' | Some k \<Rightarrow> show_int k)]"

definition contact_list_handler :: "env \<Rightarrow> request \<Rightarrow> db \<Rightarrow> outcome" where
  "contact_list_handler E req d =
     (case (int_param (query req ''page'') 1, int_param (query req ''limit'') 20) of
        (Some page, Some limit) \<Rightarrow>
          (let whereClause = filter_on ''status'' (query req ''status'')
                 @ filter_on ''inquiry_type'' (query req ''inquiry_type'') in
           case getRows contact_messages_schema (contact_messages d)
                  [(''message_id'', ''message_id''), (''full_name'', ''name''), (''email'', ''email''),
                   (''phone'', ''phone''), (''subject'', ''subject''),
                   (''inquiry_type'', ''inquiry_type''), (''status'', ''status''),
                   (''created_at'', ''created_at''), (''updated_at'', ''updated_at'')]
                  whereClause ''created_at'' True limit ((page - 1) * limit) of
             Inl e \<Rightarrow> throw e d
           | Inr messages \<Rightarrow>
               (case contact_js_getRow contact_messages_schema (contact_messages d) [] whereClause of
                  Inl e \<Rightarrow> throw e d
                | Inr totalResult \<Rightarrow>
                    \<lparr>result = Inr ((success 200 []
                         (pagination page limit
                            (int (length (filter (row_matches whereClause) (contact_messages d))))))
                         \<lparr>records := messages\<rparr>),
                     store = d, outbox = [], console = []\<rparr>))
      | _ \<Rightarrow> throw (SqlError ''SQLITE_MISMATCH: datatype mismatch'') d)"

definition contact_list :: "env \<Rightarrow> request \<Rightarrow> db \<Rightarrow> reply" where
  "contact_list E req d = catchAsync E (contact_list_handler E req d)"

definition contact_statuses :: "string list" where
  "contact_statuses = [''new'', ''in_progress'', ''resolved'', ''closed'']"

definition contactStatusRules :: "chain list" where
  "contactStatusRules =
     [enum_chain ''status'' False contact_statuses ''Invalid status'',
      text_chain ''notes'' True 0 1000 ''Notes cannot exceed 1000 characters'']"

definition contact_status_handler :: "env \<Rightarrow> request \<Rightarrow> db \<Rightarrow> outcome" where
  "contact_status_handler E req d =
     (let contactId = params req ''contactId'';
          status = body req ''status''; notes = body req ''notes'' in
      case contact_js_getRow contact_messages_schema (contact_messages d)
             (star contact_messages_schema) [(''message_id'', TextV contactId)] of
        Inl e \<Rightarrow> throw e d
      | Inr None \<Rightarrow> throw (AppError 404 ''Contact message not found'' ''MESSAGE_NOT_FOUND'') d
      | Inr (Some existingMessage) \<Rightarrow>
          (case sql_update contact_messages_schema (contact_messages d)
                  [(''status'', bind status), (''admin_notes'', or_null notes),
                   (''updated_at'', TextV (current_timestamp E))]
                  [(''message_id'', TextV contactId)] of
             Inl e \<Rightarrow> throw e d
           | Inr rows \<Rightarrow>
               (let (s, l) =
                      (if status = Some ''resolved'' \<and> truthy (getcol existingMessage ''email'')
                       then try_send E
                              [(text_of (getcol existingMessage ''email''),
                                ''Your Inquiry Has Been Resolved - '' @ contactId)]
                              ''Status update email failed:''
                       else ([], [])) in
                \<lparr>result = Inr (success 200 ''Contact message status updated successfully''
                    [(''message_id'', contactId), (''new_status'', to_string status)]),
                 store = d\<lparr>contact_messages := rows\<rparr>, outbox = s, console = l\<rparr>)))"

definition contact_status :: "env \<Rightarrow> request \<Rightarrow> db \<Rightarrow> reply" where
  "contact_status E req d = route E contactStatusRules [] (contact_status_handler E) req d"

section \<open>Feedback (routes/feedback.js)\<close>






definition feedback_list_handler :: "env \<Rightarrow> request \<Rightarrow> db \<Rightarrow> outcome" where
  "feedback_list_handler E req d =
     (case (int_param (query req ''page'') 1, int_param (query req ''limit'') 20) of
        (Some page, Some limit) \<Rightarrow>
          (let sort_by = to_string (default_to ''created_at'' (query req ''sort_by''));
               sort_order = to_string (default_to ''desc'' (query req ''sort_order''));
               whereClause = filter_on ''feedback_type'' (query req ''feedback_type'')
                 @ (if present (query req ''rating'')
                    then [(''rating'', bind_int (query req ''rating''))] else [])
                 @ filter_on ''status'' (query req ''status'')
                 @ filter_on ''service_used'' (query req ''service_used'');
               sortColumn = (if sort_by \<in> set [''created_at'', ''rating'', ''feedback_type'', ''name'']
                             then sort_by else ''created_at'');
               descending = (toLowerCase sort_order \<noteq> ''asc'') in
           case getRows feedback_schema (feedback d)
                  [(''feedback_id'', ''feedback_id''), (''name'', ''name''), (''email'', ''email''),
                   (''service_used'', ''service_used''), (''rating'', ''rating''),
                   (''feedback_type'', ''feedback_type''), (''subject'', ''subject''),
                   (''would_recommend'', ''would_recommend''), (''status'', ''status''),
                   (''created_at'', ''created_at''), (''updated_at'', ''updated_at'')]
                  whereClause sortColumn descending limit ((page - 1) * limit) of
             Inl e \<Rightarrow> throw e d
           | Inr rows \<Rightarrow>
               (case sql_count feedback_schema (feedback d) whereClause of
                  Inl e \<Rightarrow> throw e d
                | Inr n \<Rightarrow>
                    \<lparr>result = Inr ((success 200 [] (pagination page limit n))\<lparr>records := rows\<rparr>),
                     store = d, outbox = [], console = []\<rparr>))
      | _ \<Rightarrow> throw (SqlError ''SQLITE_MISMATCH: datatype mismatch'') d)"

definition feedback_list :: "env \<Rightarrow> request \<Rightarrow> db \<Rightarrow> reply" where
  "feedback_list E req d = catchAsync E (feedback_list_handler E req d)"

definition feedback_statuses :: "string list" where
  "feedback_statuses = [''new'', ''reviewed'', ''responded'', ''closed'']"

definition feedbackStatusRules :: "chain list" where
  "feedbackStatusRules =
     [enum_chain ''status'' False feedback_statuses ''Invalid status'',
      text_chain ''admin_notes'' True 0 1000 ''Admin notes cannot exceed 1000 characters'']"

definition feedback_status_handler :: "env \<Rightarrow> request \<Rightarrow> db \<Rightarrow> outcome" where
  "feedback_status_handler E req d =
     (let feedbackId = params req ''feedbackId'';
          status = body req ''status''; admin_notes = body req ''admin_notes'' in
      case getRow feedback_schema (feedback d) (star feedback_schema)
             [(''feedback_id'', TextV feedbackId)] of
        Inl e \<Rightarrow> throw e d
      | Inr None \<Rightarrow> throw (AppError 404 ''Feedback not found'' ''FEEDBACK_NOT_FOUND'') d
      | Inr (Some existingFeedback) \<Rightarrow>
          (case sql_update feedback_schema (feedback d)
                  [(''status'', bind status), (''admin_notes'', or_null admin_notes),
                   (''updated_at'', TextV (current_timestamp E))]
                  [(''feedback_id'', TextV feedbackId)] of
             Inl e \<Rightarrow> throw e d
           | Inr rows \<Rightarrow>
               (let (s, l) =
                      (if status = Some ''responded'' \<and> truthy (getcol existingFeedback ''email'')
                          \<and> present admin_notes
                       then try_send E
                              [(text_of (getcol existingFeedback ''email''),
                                ''Response to Your Feedback - '' @ feedbackId)]
                              ''Response email failed:''
                       else ([], [])) in
                \<lparr>result = Inr (success 200 ''Feedback status updated successfully''
                    [(''feedback_id'', feedbackId), (''new_status'', to_string status)]),
                 store = d\<lparr>feedback := rows\<rparr>, outbox = s, console = l\<rparr>)))"

definition feedback_status :: "env \<Rightarrow> request \<Rightarrow> db \<Rightarrow> reply" where
  "feedback_status E req d = route E feedbackStatusRules [] (feedback_status_handler E) req d"

section \<open>Visa applications (routes/visa.js)\<close>

text \<open>
  \<open>moment(undefined)\<close> is the current time, so an absent date counts as today. Comparing
  with an invalid moment is false.
\<close>

definition moment_of :: "env \<Rightarrow> string option \<Rightarrow> int option" where
  "moment_of E v = (case v of None \<Rightarrow> Some (today E) | Some s \<Rightarrow> moment_day E s)"

definition arrival_not_past :: "env \<Rightarrow> body \<Rightarrow> string option \<Rightarrow> string option" where
  "arrival_not_past E b v = (case moment_of E v of
       Some a \<Rightarrow> if a < today E then Some ''Arrival date cannot be in the past'' else None
     | None \<Rightarrow> None)"

definition departure_after_arrival :: "env \<Rightarrow> body \<Rightarrow> string option \<Rightarrow> string option" where
  "departure_after_arrival E b v =
     (case (moment_of E v, moment_of E (b ''arrival_date'')) of
        (Some x, Some a) \<Rightarrow>
          if x \<le> a then Some ''Departure date must be after arrival date'' else None
      | _ \<Rightarrow> None)"

definition visaValidationRules :: "env \<Rightarrow> chain list" where
  "visaValidationRules E =
     [name_chain ''full_name'' ''Full name must be between 2 and 100 characters''
        ''Full name can only contain letters, spaces, hyphens, and apostrophes'',
      email_chain E,
      phone_chain ''phone'' False ''Please provide a valid phone number'',
      text_chain ''nationality'' False 2 50 ''Nationality must be between 2 and 50 characters'',
      \<lparr>cfield = ''passport_number'', optional = False, steps =
         [Sanitize trim,
          Validate (isLength 6 (Some 20)) ''Passport number must be between 6 and 20 characters'',
          Validate matches_upper_alnum
            ''Passport number can only contain uppercase letters and numbers'']\<rparr>,
      enum_chain ''visa_type'' False
        [''tourist'', ''business'', ''transit'', ''work'', ''student'', ''family'', ''medical'']
        ''Please select a valid visa type'',
      text_chain ''purpose_of_visit'' False 10 500
        ''Purpose of visit must be between 10 and 500 characters'',
      \<lparr>cfield = ''duration_of_stay'', optional = False, steps =
         [Validate (isInt 1 365) ''Duration of stay must be between 1 and 365 days'']\<rparr>,
      \<lparr>cfield = ''arrival_date'', optional = False, steps =
         [Validate (isISO8601 E) ''Please provide a valid arrival date'',
          Custom (arrival_not_past E)]\<rparr>,
      \<lparr>cfield = ''departure_date'', optional = False, steps =
         [Validate (isISO8601 E) ''Please provide a valid departure date'',
          Custom (departure_after_arrival E)]\<rparr>,
      text_chain ''accommodation_details'' True 0 500
        ''Accommodation details cannot exceed 500 characters'',
      text_chain ''sponsor_information'' True 0 500
        ''Sponsor information cannot exceed 500 characters'',
      enum_chain ''previous_uae_visit'' False [''yes'', ''no'']
        ''Please specify if you have visited UAE before'',
      enum_chain ''criminal_record'' False [''yes'', ''no'']
        ''Please specify if you have any criminal record'',
      text_chain ''medical_conditions'' True 0 500
        ''Medical conditions cannot exceed 500 characters'',
      text_chain ''emergency_contact_name'' False 2 100
        ''Emergency contact name must be between 2 and 100 characters'',
      phone_chain ''emergency_contact_phone'' False
        ''Please provide a valid emergency contact phone number'',
      text_chain ''emergency_contact_relationship'' False 2 50
        ''Emergency contact relationship must be between 2 and 50 characters'']"

fun join_comma :: "string list \<Rightarrow> string" where
  "join_comma [] = []"
| "join_comma [x] = x"
| "join_comma (x # y # zs) = x @ '','' @ join_comma (y # zs)"

definition first_file :: "string list \<Rightarrow> sqlval" where
  "first_file fs = (case fs of [] \<Rightarrow> Null | f # _ \<Rightarrow> TextV f)"

definition visa_submit_handler :: "env \<Rightarrow> request \<Rightarrow> db \<Rightarrow> outcome" where
  "visa_submit_handler E req d =
     (if files req ''passport_copy'' = [] \<or> files req ''photo'' = [] then
        throw (AppError 400 ''Passport copy and photo are required'' ''MISSING_REQUIRED_FILES'') d
      else
       (let applicationId = generate_id E ''UAE'' 9 in
        case sql_insert visa_applications_schema (current_timestamp E) (visa_applications d)
               [''application_id'', ''full_name'', ''email'', ''phone'', ''nationality'',
                ''passport_number'', ''visa_type'', ''purpose_of_visit'', ''duration_of_stay'',
                ''arrival_date'', ''departure_date'', ''accommodation_details'',
                ''sponsor_information'', ''previous_uae_visit'', ''criminal_record'',
                ''medical_conditions'', ''emergency_contact_name'', ''emergency_contact_phone'',
                ''emergency_contact_relationship'', ''passport_copy_path'', ''photo_path'',
                ''cv_path'', ''additional_documents_path'', ''status'', ''created_at'',
                ''updated_at'']
               [TextV applicationId, bind (body req ''full_name''), bind (body req ''email''),
                bind (body req ''phone''), bind (body req ''nationality''),
                bind (body req ''passport_number''), bind (body req ''visa_type''),
                bind (body req ''purpose_of_visit''), bind_int (body req ''duration_of_stay''),
                bind (body req ''arrival_date''), bind (body req ''departure_date''),
                bind (body req ''accommodation_details''), bind (body req ''sponsor_information''),
                bind (body req ''previous_uae_visit''), bind (body req ''criminal_record''),
                bind (body req ''medical_conditions''), bind (body req ''emergency_contact_name''),
                bind (body req ''emergency_contact_phone''),
                bind (body req ''emergency_contact_relationship''),
                first_file (files req ''passport_copy''), first_file (files req ''photo''),
                first_file (files req ''cv''),
                (if files req ''additional_documents'' = [] then Null
                 else TextV (join_comma (files req ''additional_documents''))),
                TextV ''pending'', TextV (current_timestamp E), TextV (current_timestamp E)] of
          Inl e \<Rightarrow> throw e d
        | Inr rows \<Rightarrow>
            (let d1 = d\<lparr>visa_applications := rows\<rparr> in
             case sql_insert application_status_log_schema (current_timestamp E)
                    (application_status_log d1)
                    [''application_id'', ''old_status'', ''new_status'', ''notes'', ''created_at'']
                    [TextV applicationId, Null, TextV ''pending'', TextV ''Application submitted'',
                     TextV (current_timestamp E)] of
               Inl e \<Rightarrow> throw e d1
             | Inr logs \<Rightarrow>
                 (let (s, l) = try_send E
                        [(to_string (body req ''email''),
                          ''UAE Visa Application Confirmation - '' @ applicationId),
                         (admin_address E, ''New Visa Application - '' @ applicationId)]
                        ''Email sending failed:'' in
                  \<lparr>result = Inr (success 201 ''Visa application submitted successfully''
                      [(''application_id'', applicationId), (''status'', ''pending'')]),
                   store = d1\<lparr>application_status_log := logs\<rparr>, outbox = s, console = l\<rparr>))))"

definition visa_submit :: "env \<Rightarrow> request \<Rightarrow> db \<Rightarrow> reply" where
  "visa_submit E req d = route E (visaValidationRules E) [] (visa_submit_handler E) req d"

subsection \<open>The rule set of utils/validation.js\<close>

text \<open>
  utils/validation.js defines reusable rules and, in \<open>rulesets.visaApplication\<close>, a second
  rule set for the same form; routes/visa.js does not import it. Two of its rules are
  custom validators: \<open>departureDateAfterArrival\<close>, which the route repeats inline, and
  \<open>durationMatchesDates\<close>, which the route has no counterpart of.
\<close>

definition hex_value :: "char \<Rightarrow> nat option" where
  "hex_value c = (let n = length (takeWhile (\<lambda>x. x \<noteq> lower_char c) ''0123456789abcdef'')
                  in if n < 16 then Some n else None)"

definition parseInt :: "string \<Rightarrow> int option" where
  "parseInt s =
     (let t = dropWhile is_space s;
          neg = (take 1 t = ''-'');
          u = (if take 1 t = ''-'' \<or> take 1 t = ''+'' then drop 1 t else t);
          hex = (take 2 u = ''0x'' \<or> take 2 u = ''0X'');
          ds = (if hex then takeWhile (\<lambda>c. hex_value c \<noteq> None) (drop 2 u)
                else takeWhile is_digit u);
          n = (if hex then foldl (\<lambda>a c. 16 * a + (case hex_value c of Some k \<Rightarrow> k | None \<Rightarrow> 0)) 0 ds
               else nat_of_digits ds)
      in if ds = [] then None else Some (if neg then - int n else int n))"

definition departureDateAfterArrival :: "env \<Rightarrow> chain" where
  "departureDateAfterArrival E =
     \<lparr>cfield = ''departure_date'', optional = False, steps =
        [Custom (\<lambda>b v. if present (b ''arrival_date'')
                        then departure_after_arrival E b v else None)]\<rparr>"

definition durationMatchesDates :: "env \<Rightarrow> chain" where
  "durationMatchesDates E =
     \<lparr>cfield = ''duration_of_stay'', optional = False, steps =
        [Custom (\<lambda>b v.
           if present (b ''arrival_date'') \<and> present (b ''departure_date'') then
             (let calculatedDuration =
                    diff_days E (to_string (b ''departure_date'')) (to_string (b ''arrival_date''))
              in if calculatedDuration = None \<or> parseInt (to_string v) \<noteq> calculatedDuration
                 then Some (''Duration of stay ('' @ to_string v
                       @ '' days) does not match the date range (''
                       @ (case calculatedDuration of None \<Rightarrow> ''NaN'' | Some c \<Rightarrow> show_int c)
                       @ '' days)'')
                 else None)
           else None)]\<rparr>"

section \<open>Sample inputs\<close>

text \<open>
  An environment, a store and requests on which the routes are evaluated. The sample
  environment reads calendar dates \<open>YYYY-MM-DD\<close>; its day count is the usual count of
  days of the Gregorian calendar from 1970-01-01.
\<close>

definition days_from_civil :: "int \<Rightarrow> int \<Rightarrow> int \<Rightarrow> int" where
  "days_from_civil y m d =
     (let y' = (if m \<le> 2 then y - 1 else y);
          era = y' div 400;
          yoe = y' - era * 400;
          doy = (153 * (if m > 2 then m - 3 else m + 9) + 2) div 5 + d - 1;
          doe = yoe * 365 + yoe div 4 - yoe div 100 + doy
      in era * 146097 + doe - 719468)"

definition sample_date :: "string \<Rightarrow> int option" where
  "sample_date s =
     (if length s = 10 \<and> s ! 4 = CHR ''-'' \<and> s ! 7 = CHR ''-''
         \<and> list_all is_digit (take 4 s @ take 2 (drop 5 s) @ drop 8 s)
      then Some (days_from_civil (int (nat_of_digits (take 4 s)))
                   (int (nat_of_digits (take 2 (drop 5 s)))) (int (nat_of_digits (drop 8 s))))
      else None)"

definition sample_env :: env where
  "sample_env =
     \<lparr>isEmail = (\<lambda>s. CHR ''@'' \<in> set s),
      normalizeEmail = (\<lambda>s. s),
      isISO8601 = (\<lambda>s. sample_date s \<noteq> None),
      moment_day = sample_date,
      diff_days = (\<lambda>a b. case (sample_date a, sample_date b) of
                            (Some x, Some y) \<Rightarrow> Some (x - y) | _ \<Rightarrow> None),
      today = 20240,
      date_now = 1748736000000,
      random_digits = [10, 3, 35, 0, 7, 20, 1, 1],
      random_token = ''0123456789abcdef0123456789abcdef0123456789abcdef0123456789abcdef'',
      current_timestamp = ''2025-06-01 00:00:00'',
      transport_ok = (\<lambda>to subject. True),
      development = False,
      email_to = None\<rparr>"

definition sample_token :: string where
  "sample_token = ''aaaaaaaaaaaaaaaaaaaaaaaaaaaaaaaabbbbbbbbbbbbbbbbbbbbbbbbbbbbbbbb''"

definition sample_subscription :: row where
  "sample_subscription =
     [(''id'', IntV 1), (''email'', TextV ''a@b.com''), (''full_name'', Null),
      (''subscription_date'', TextV ''2025-05-01 10:00:00''), (''is_active'', IntV 1),
      (''unsubscribe_token'', TextV sample_token),
      (''created_at'', TextV ''2025-05-01 10:00:00''),
      (''updated_at'', TextV ''2025-05-01 10:00:00'')]"

definition sample_message :: row where
  "sample_message =
     [(''id'', IntV 1), (''message_id'', TextV ''CONTACT-1746093600000-K3J9QA''),
      (''full_name'', TextV ''Jane Doe''), (''email'', TextV ''jane@example.com''),
      (''phone'', Null), (''inquiry_type'', TextV ''general''),
      (''subject'', TextV ''Visa question''), (''message'', TextV ''How long does it take?''),
      (''preferred_contact'', TextV ''email''), (''urgency_level'', TextV ''medium''),
      (''newsletter_subscription'', IntV 0), (''status'', TextV ''new''),
      (''created_at'', TextV ''2025-05-01 10:00:00''),
      (''updated_at'', TextV ''2025-05-01 10:00:00'')]"

definition sample_feedback :: row where
  "sample_feedback =
     [(''id'', IntV 1), (''feedback_id'', TextV ''FB-1746093600000-Z81ABC''),
      (''full_name'', TextV ''Jane Doe''), (''email'', TextV ''jane@example.com''),
      (''phone'', Null), (''visa_type'', Null), (''service_rating'', IntV 4),
      (''would_recommend'', TextV ''yes''), (''feedback_title'', TextV ''Good service''),
      (''feedback_message'', TextV ''Everything went well.''), (''aspects_impressed'', Null),
      (''allow_public_display'', IntV 0), (''allow_contact'', IntV 0),
      (''status'', TextV ''pending''), (''is_featured'', IntV 0),
      (''created_at'', TextV ''2025-05-01 10:00:00''),
      (''updated_at'', TextV ''2025-05-01 10:00:00'')]"

definition sample_db :: db where
  "sample_db =
     \<lparr>visa_applications = [], contact_messages = [sample_message],
      feedback = [sample_feedback], newsletter_subscriptions = [sample_subscription],
      application_status_log = []\<rparr>"

definition empty_request :: request where
  "empty_request =
     \<lparr>body = (\<lambda>f. None), preferences = None, params = (\<lambda>p. []), query = (\<lambda>q. None),
      files = (\<lambda>f. [])\<rparr>"

definition unsubscribe_request :: request where
  "unsubscribe_request = empty_request\<lparr>body := [''token'' \<mapsto> sample_token]\<rparr>"

definition subscribe_request :: request where
  "subscribe_request = empty_request\<lparr>body := [''email'' \<mapsto> ''a@b.com'']\<rparr>"

text \<open>Status updates of the stored contact message and the stored feedback entry.\<close>

definition contact_patch_request :: request where
  "contact_patch_request =
     empty_request\<lparr>params := (\<lambda>p. if p = ''contactId'' then ''CONTACT-1746093600000-K3J9QA'' else []),
                    body := [''status'' \<mapsto> ''resolved'']\<rparr>"

definition contact_patch_unknown :: request where
  "contact_patch_unknown =
     empty_request\<lparr>params := (\<lambda>p. if p = ''contactId'' then ''CONTACT-1-NOSUCH'' else []),
                    body := [''status'' \<mapsto> ''resolved'']\<rparr>"

definition feedback_patch_request :: request where
  "feedback_patch_request =
     empty_request\<lparr>params := (\<lambda>p. if p = ''feedbackId'' then ''FB-1746093600000-Z81ABC'' else []),
                    body := [''status'' \<mapsto> ''reviewed'']\<rparr>"

definition feedback_patch_invalid :: request where
  "feedback_patch_invalid =
     empty_request\<lparr>params := (\<lambda>p. if p = ''feedbackId'' then ''FB-1746093600000-Z81ABC'' else []),
                    body := [''status'' \<mapsto> ''archived'', ''admin_notes'' \<mapsto> ''done'']\<rparr>"

text \<open>\<open>?status=approved&page=2&limit=10\<close>\<close>

definition list_request :: request where
  "list_request =
     empty_request\<lparr>query := [''status'' \<mapsto> ''approved'', ''page'' \<mapsto> ''2'', ''limit'' \<mapsto> ''10'']\<rparr>"



text \<open>
  The visa application of the specification's scenario, declaring 6 days for a stay from
  2025-06-10 to 2025-06-15, with both required files.
\<close>

definition visa_request :: request where
  "visa_request =
     empty_request\<lparr>body :=
       [''full_name'' \<mapsto> ''Jane Doe'', ''email'' \<mapsto> ''jane@example.com'',
        ''phone'' \<mapsto> ''+971501234567'', ''nationality'' \<mapsto> ''Indian'',
        ''passport_number'' \<mapsto> ''A1234567'', ''visa_type'' \<mapsto> ''tourist'',
        ''purpose_of_visit'' \<mapsto> ''Family holiday in Dubai'', ''duration_of_stay'' \<mapsto> ''6'',
        ''arrival_date'' \<mapsto> ''2025-06-10'', ''departure_date'' \<mapsto> ''2025-06-15'',
        ''previous_uae_visit'' \<mapsto> ''no'', ''criminal_record'' \<mapsto> ''no'',
        ''emergency_contact_name'' \<mapsto> ''John Doe'',
        ''emergency_contact_phone'' \<mapsto> ''+971501234568'',
        ''emergency_contact_relationship'' \<mapsto> ''Brother''],
      files := (\<lambda>f. if f = ''passport_copy'' then [''passport_copy-1748736000000-1.pdf'']
                     else if f = ''photo'' then [''photo-1748736000000-2.jpg''] else [])\<rparr>"

section \<open>Notions used in the properties\<close>

text \<open>The newsletter invariant: no two subscription rows carry the same e-mail address.\<close>

definition one_row_per_email :: "db \<Rightarrow> bool" where
  "one_row_per_email d = distinct (map (\<lambda>r. getcol r ''email'') (newsletter_subscriptions d))"

text \<open>The errors validation finds for a request under a rule set.\<close>

definition validation_errors :: "chain list \<Rightarrow> request \<Rightarrow> verror list" where
  "validation_errors rules req = fst (run_chains rules (body req))"

text \<open>The address the subscribe handler looks up: the body's e-mail after normalizeEmail.\<close>

definition subscriber_email :: "env \<Rightarrow> request \<Rightarrow> sqlval" where
  "subscriber_email E req = TextV (normalizeEmail E (to_string (body req ''email'')))"

text \<open>
  The SET clause of the reactivating UPDATE of the subscribe handler, on one row:
  \<open>is_active = true, full_name = ?, unsubscribe_token = ?, updated_at = CURRENT_TIMESTAMP\<close>.
\<close>

definition reactivated :: "sqlval \<Rightarrow> string \<Rightarrow> string \<Rightarrow> row \<Rightarrow> row" where
  "reactivated n t u r =
     setcol ''updated_at'' (TextV u) (setcol ''unsubscribe_token'' (TextV t)
       (setcol ''full_name'' n (setcol ''is_active'' (IntV 1) r)))"

text \<open>The entry of the errors array that handleValidationErrors makes of an error.\<close>

definition entry_of :: "verror \<Rightarrow> entry" where
  "entry_of e = \<lparr>field = path e, message = msg e, value = errvalue e\<rparr>"


text \<open>
  The errors the i-th chain of a rule set finds, on the body as the chains before it left
  it.
\<close>

definition chain_errors :: "chain list \<Rightarrow> body \<Rightarrow> nat \<Rightarrow> verror list" where
  "chain_errors rules b i = fst (run_chain (rules ! i) (snd (run_chains (take i rules) b)))"

section \<open>Properties\<close>

subsection \<open>The middleware\<close>

lemma route_reject:
  assumes "fst (run_chains rules (body req)) @ extra \<noteq> []"
  shows "route E rules extra h req d =
           \<lparr>resp = the (handleValidationErrors (fst (run_chains rules (body req)) @ extra)),
            db_after = d, sent = [], logged = []\<rparr>"
  using assms by (cases "run_chains rules (body req)") (simp add: route_def handleValidationErrors_def)

lemma route_accept:
  assumes "fst (run_chains rules (body req)) @ extra = []"
  shows "route E rules extra h req d =
           catchAsync E (h (req\<lparr>body := snd (run_chains rules (body req))\<rparr>) d)"
  using assms by (cases "run_chains rules (body req)") (simp add: route_def handleValidationErrors_def)

lemma route_reject_400:
  assumes "fst (run_chains rules (body req)) @ extra \<noteq> []"
  shows "statusCode (resp (route E rules extra h req d)) = 400"
    and "db_after (route E rules extra h req d) = d"
  using assms by (simp_all add: route_reject handleValidationErrors_def)

lemma catchAsync_throw [simp]:
  "catchAsync E (throw e d) = \<lparr>resp = errorHandler E e, db_after = d, sent = [], logged = []\<rparr>"
  by (simp add: catchAsync_def throw_def)

lemma errorHandler_SqlError [simp]: "statusCode (errorHandler E (SqlError m)) = 500"
  by (simp add: errorHandler_def error_statusCode_def)

lemma errorHandler_ReferenceError [simp]: "statusCode (errorHandler E (ReferenceError x)) = 500"
  by (simp add: errorHandler_def error_statusCode_def)

lemma errorHandler_AppError [simp]: "statusCode (errorHandler E (AppError sc m c)) = sc"
  by (simp add: errorHandler_def error_statusCode_def isOperational_def)

subsection \<open>Unsubscribing\<close>

lemma getRow_newsletter_status:
  "getRow newsletter_subscriptions_schema rows (star newsletter_subscriptions_schema)
     [(''unsubscribe_token'', v), (''status'', w)] = Inl (no_such_column ''status'')"
  by (simp add: getRow_def sql_select_def missing_column_def star_def column_names_def
      newsletter_subscriptions_schema_def col_def)

lemma unsubscribe_handler_throws:
  "unsubscribe_handler E req d = throw (no_such_column ''status'') d"
  by (simp add: unsubscribe_handler_def getRow_newsletter_status)

lemma unsubscribe_never_succeeds:
  "db_after (unsubscribe E req d) = d \<and>
   (statusCode (resp (unsubscribe E req d)) = 400 \<or> statusCode (resp (unsubscribe E req d)) = 500)"
proof (cases "fst (run_chains unsubscribeValidationRules (body req)) @ [] = []")
  case True
  then show ?thesis
    by (simp add: unsubscribe_def route_accept unsubscribe_handler_throws no_such_column_def)
next
  case False
  then show ?thesis
    unfolding unsubscribe_def using route_reject_400 [OF False] by simp
qed

text \<open>
  C3. The sample store holds one active subscription; the request carries its token. The
  claim says the answer is 200 and the row is deactivated. The SELECT of the handler names
  a column \<open>status\<close>, which newsletter_subscriptions does not have (the flag is
  \<open>is_active\<close>), so SQLite rejects the statement: the answer is 500 and the subscription
  stays active.
\<close>

theorem unsubscribe_active_token_fails:
  "statusCode (resp (unsubscribe sample_env unsubscribe_request sample_db)) = 500
   \<and> db_after (unsubscribe sample_env unsubscribe_request sample_db) = sample_db
   \<and> getcol sample_subscription ''unsubscribe_token'' = bind (body unsubscribe_request ''token'')
   \<and> truthy (getcol sample_subscription ''is_active'')"
proof -
  have "fst (run_chains unsubscribeValidationRules (body unsubscribe_request)) @ [] = []"
    by (simp add: unsubscribeValidationRules_def run_chain_def unsubscribe_request_def
        empty_request_def sample_token_def notEmpty_def isLength_def to_string_def)
  then have "unsubscribe sample_env unsubscribe_request sample_db =
      catchAsync sample_env (unsubscribe_handler sample_env
        (unsubscribe_request\<lparr>body := snd (run_chains unsubscribeValidationRules
           (body unsubscribe_request))\<rparr>) sample_db)"
    unfolding unsubscribe_def by (rule route_accept)
  moreover have "getcol sample_subscription ''unsubscribe_token''
      = bind (body unsubscribe_request ''token'')"
    by (simp add: sample_subscription_def getcol_def bind_def unsubscribe_request_def
        empty_request_def)
  moreover have "truthy (getcol sample_subscription ''is_active'')"
    by (simp add: sample_subscription_def getcol_def truthy_def)
  ultimately show ?thesis
    by (simp add: unsubscribe_handler_throws no_such_column_def)
qed

subsection \<open>Subscribing\<close>

lemma getcol_setcol: "getcol (setcol c v r) c' = (if c' = c then v else getcol r c')"
  by (induction r) (auto simp: getcol_def)

lemma map_of_self: "map_of (map (\<lambda>c. (c, f c)) xs) c = (if c \<in> set xs then Some (f c) else None)"
  by (induction xs) auto

lemma getcol_project_star:
  "getcol (project (star S) r) c = (if c \<in> set (column_names S) then getcol r c else Null)"
proof -
  have "project (star S) r = map (\<lambda>c. (c, getcol r c)) (column_names S)"
    by (simp add: project_def star_def comp_def)
  then show ?thesis by (simp add: getcol_def map_of_self)
qed

lemma newsletter_columns:
  "column_names newsletter_subscriptions_schema =
     [''id'', ''email'', ''full_name'', ''subscription_date'', ''is_active'',
      ''unsubscribe_token'', ''created_at'', ''updated_at'']"
  by (simp add: column_names_def newsletter_subscriptions_schema_def col_def)

lemma getRow_by_email:
  "getRow newsletter_subscriptions_schema rows (star newsletter_subscriptions_schema)
     [(''email'', TextV s)] =
   Inr (map_option (project (star newsletter_subscriptions_schema))
          (find (\<lambda>r. getcol r ''email'' = TextV s) rows))"
proof -
  have m: "missing_column newsletter_subscriptions_schema
      (map fst (star newsletter_subscriptions_schema) @ map fst [(''email'', TextV s)]) = None"
    by (simp add: missing_column_def star_def newsletter_columns)
  have p: "row_matches [(''email'', TextV s)] = (\<lambda>r. getcol r ''email'' = TextV s)"
    by (auto simp: row_matches_def sql_eq_def)
  show ?thesis
    unfolding getRow_def sql_select_def m p
    by (induction rows) auto
qed


lemma subscribe_body_email:
  "snd (run_chains (subscriptionValidationRules E) b) ''email'' =
     Some (normalizeEmail E (to_string (b ''email'')))"
  by (simp add: subscriptionValidationRules_def run_chain_def split: prod.splits)

lemma notnull_newsletter:
  "notnull_ok newsletter_subscriptions_schema r =
     (getcol r ''id'' \<noteq> Null \<and> getcol r ''email'' \<noteq> Null)"
  by (simp add: notnull_ok_def newsletter_subscriptions_schema_def col_def)

lemma fold_max_ge:
  "m \<le> fold (\<lambda>r m. case getcol r ''id'' of IntV n \<Rightarrow> max n m | _ \<Rightarrow> m) rows (m::int)"
proof (induction rows arbitrary: m)
  case Nil
  then show ?case by simp
next
  case (Cons r rows)
  show ?case
  proof (cases "getcol r ''id''")
    case (IntV n)
    have "m \<le> max n m" by simp
    also have "\<dots> \<le> fold (\<lambda>r m. case getcol r ''id'' of IntV n \<Rightarrow> max n m | _ \<Rightarrow> m) rows (max n m)"
      by (rule Cons.IH)
    finally show ?thesis using IntV by simp
  qed (use Cons.IH in simp_all)
qed

lemma fold_max_bound:
  "r \<in> set rows \<Longrightarrow> getcol r ''id'' = IntV n \<Longrightarrow>
   n \<le> fold (\<lambda>r m. case getcol r ''id'' of IntV n \<Rightarrow> max n m | _ \<Rightarrow> m) rows (m::int)"
proof (induction rows arbitrary: m)
  case Nil
  then show ?case by simp
next
  case (Cons a rows)
  show ?case
  proof (cases "r = a")
    case True
    have "n \<le> max n m" by simp
    also have "\<dots> \<le> fold (\<lambda>r m. case getcol r ''id'' of IntV n \<Rightarrow> max n m | _ \<Rightarrow> m) rows (max n m)"
      by (rule fold_max_ge)
    finally show ?thesis using True Cons.prems by simp
  next
    case False
    then have "r \<in> set rows" using Cons.prems by simp
    then show ?thesis using Cons.IH Cons.prems(2) by simp
  qed
qed

lemma next_id_fresh: "IntV (next_id rows) \<notin> set (map (\<lambda>r. getcol r ''id'') rows)"
proof
  assume "IntV (next_id rows) \<in> set (map (\<lambda>r. getcol r ''id'') rows)"
  then obtain r where r: "r \<in> set rows" "getcol r ''id'' = IntV (next_id rows)" by auto
  from fold_max_bound [OF this, of 0] show False by (simp add: next_id_def)
qed

lemma unique_newsletter:
  "unique_ok newsletter_subscriptions_schema rows r =
     ((getcol r ''id'' = Null \<or> getcol r ''id'' \<notin> set (map (\<lambda>x. getcol x ''id'') rows)) \<and>
      (getcol r ''email'' = Null \<or> getcol r ''email'' \<notin> set (map (\<lambda>x. getcol x ''email'') rows)) \<and>
      (getcol r ''unsubscribe_token'' = Null
         \<or> getcol r ''unsubscribe_token'' \<notin> set (map (\<lambda>x. getcol x ''unsubscribe_token'') rows)))"
  by (simp add: unique_ok_def newsletter_subscriptions_schema_def col_def)

lemma new_subscription_row:
  "new_row newsletter_subscriptions_schema ts rows
     (zip [''email'', ''full_name'', ''unsubscribe_token'', ''is_active'', ''created_at'', ''updated_at'']
          [e, n, t, a, c, u]) =
   [(''id'', IntV (next_id rows)), (''email'', e), (''full_name'', n),
    (''subscription_date'', TextV ts), (''is_active'', a), (''unsubscribe_token'', t),
    (''created_at'', c), (''updated_at'', u)]"
  by (simp add: new_row_def newsletter_subscriptions_schema_def col_def default_value_def)

lemma insert_subscription:
  "sql_insert newsletter_subscriptions_schema ts rows
     [''email'', ''full_name'', ''unsubscribe_token'', ''is_active'', ''created_at'', ''updated_at'']
     [TextV s, n, TextV t, IntV 1, c, u] =
   (if TextV s \<in> set (map (\<lambda>x. getcol x ''email'') rows)
       \<or> TextV t \<in> set (map (\<lambda>x. getcol x ''unsubscribe_token'') rows)
    then Inl (SqlError ''SQLITE_CONSTRAINT: UNIQUE constraint failed'')
    else Inr (rows @ [[(''id'', IntV (next_id rows)), (''email'', TextV s), (''full_name'', n),
       (''subscription_date'', TextV ts), (''is_active'', IntV 1), (''unsubscribe_token'', TextV t),
       (''created_at'', c), (''updated_at'', u)]]))"
proof -
  have m: "missing_column newsletter_subscriptions_schema
     [''email'', ''full_name'', ''unsubscribe_token'', ''is_active'', ''created_at'', ''updated_at''] = None"
    by (simp add: missing_column_def newsletter_columns)
  have c: "tcheck newsletter_subscriptions_schema = (\<lambda>r. True)"
    by (simp add: newsletter_subscriptions_schema_def)
  show ?thesis
    unfolding sql_insert_def m new_subscription_row
    using next_id_fresh [of rows]
    by (simp add: notnull_newsletter unique_newsletter c getcol_def Let_def)
qed


lemma count_list_map: "count_list (map g xs) v = length (filter (\<lambda>x. g x = v) xs)"
  by (induction xs) auto

lemma distinct_one_match:
  "distinct (map f xs) \<Longrightarrow> x \<in> set xs \<Longrightarrow> length (filter (\<lambda>y. f y = f x) xs) = 1"
proof (induction xs)
  case Nil
  then show ?case by simp
next
  case (Cons a xs)
  show ?case
  proof (cases "f a = f x")
    case True
    from Cons.prems(1) have "f a \<notin> f ` set xs" by simp
    with True have "\<forall>y\<in>set xs. f y \<noteq> f x" by (metis imageI)
    then have "filter (\<lambda>y. f y = f x) xs = []" by (simp add: filter_empty_conv)
    then show ?thesis using True by simp
  next
    case False
    then have "x \<in> set xs" using Cons.prems(2) by auto
    then show ?thesis using Cons.IH Cons.prems(1) False by simp
  qed
qed


lemma reactivate_update:
  assumes d: "distinct (map (\<lambda>r. getcol r ''email'') rows)"
    and x: "x \<in> set rows" "getcol x ''email'' = TextV s"
    and nn: "list_all (notnull_ok newsletter_subscriptions_schema) rows"
    and fresh: "TextV t \<notin> set (map (\<lambda>r. getcol r ''unsubscribe_token'') rows)"
  shows "sql_update newsletter_subscriptions_schema rows
           [(''is_active'', IntV 1), (''full_name'', n), (''unsubscribe_token'', TextV t),
            (''updated_at'', TextV u)] [(''email'', TextV s)] =
         Inr (map (\<lambda>r. if getcol r ''email'' = TextV s then reactivated n t u r else r) rows)"
proof -
  let ?P = "\<lambda>r. getcol r ''email'' = TextV s"
  let ?rows' = "map (\<lambda>r. if ?P r then reactivated n t u r else r) rows"
  have m: "missing_column newsletter_subscriptions_schema
     (map fst [(''is_active'', IntV 1), (''full_name'', n), (''unsubscribe_token'', TextV t),
            (''updated_at'', TextV u)] @ map fst [(''email'', TextV s)]) = None"
    by (simp add: missing_column_def newsletter_columns)
  have p: "row_matches [(''email'', TextV s)] = ?P"
    by (auto simp: row_matches_def sql_eq_def)
  have f: "fold (\<lambda>(c, v). setcol c v) [(''is_active'', IntV 1), (''full_name'', n),
      (''unsubscribe_token'', TextV t), (''updated_at'', TextV u)] = reactivated n t u"
    by (simp add: reactivated_def fun_eq_iff)
  have c: "tcheck newsletter_subscriptions_schema = (\<lambda>r. True)"
    by (simp add: newsletter_subscriptions_schema_def)
  have nn': "list_all (notnull_ok newsletter_subscriptions_schema)
      (map (reactivated n t u) (filter ?P rows))"
    using nn by (auto simp: list_all_iff notnull_newsletter reactivated_def getcol_setcol)
  have tok: "getcol (if ?P r then reactivated n t u r else r) ''unsubscribe_token'' = TextV t
      \<longleftrightarrow> ?P r" if "r \<in> set rows" for r
  proof (cases "?P r")
    case True
    then show ?thesis by (simp add: reactivated_def getcol_setcol)
  next
    case False
    from that have "getcol r ''unsubscribe_token'' \<in> set (map (\<lambda>r. getcol r ''unsubscribe_token'') rows)"
      by simp
    with fresh have "getcol r ''unsubscribe_token'' \<noteq> TextV t" by metis
    with False show ?thesis by simp
  qed
  have "count_list (map (\<lambda>r'. getcol r' ''unsubscribe_token'') ?rows') (TextV t)
      = length (filter (\<lambda>r. getcol (if ?P r then reactivated n t u r else r) ''unsubscribe_token''
           = TextV t) rows)"
    by (simp add: count_list_map comp_def)
  also have "\<dots> = length (filter ?P rows)"
    using tok by (intro arg_cong [where f = length] filter_cong) auto
  also have "\<dots> = 1"
    using distinct_one_match [OF d x(1)] x(2) by simp
  finally have cnt: "count_list (map (\<lambda>r'. getcol r' ''unsubscribe_token'') ?rows') (TextV t) = 1" .
  have u: "list_all (\<lambda>c. \<not> uniq c \<or> cname c \<notin> set (map fst [(''is_active'', IntV 1),
          (''full_name'', n), (''unsubscribe_token'', TextV t), (''updated_at'', TextV u)])
        \<or> list_all (\<lambda>r. getcol r (cname c) = Null
              \<or> count_list (map (\<lambda>r'. getcol r' (cname c)) ?rows') (getcol r (cname c)) = 1)
            (map (reactivated n t u) (filter ?P rows)))
       (tcols newsletter_subscriptions_schema)"
    using cnt
    by (simp add: newsletter_subscriptions_schema_def col_def list_all_iff reactivated_def
        getcol_setcol)
  have c2: "list_all (tcheck newsletter_subscriptions_schema)
      (map (reactivated n t u) (filter ?P rows))"
    by (simp add: c list_all_iff)
  show ?thesis
    unfolding sql_update_def m p f Let_def
    by (simp only: nn' c2 u option.case not_True_eq_False if_False)
qed


lemma getcol_Nil: "getcol [] c = Null"
  by (simp add: getcol_def)

lemma getcol_Cons: "getcol ((k, v) # r) c = (if k = c then v else getcol r c)"
  by (simp add: getcol_def)

lemma find_SomeD: "find P xs = Some x \<Longrightarrow> x \<in> set xs \<and> P x"
  by (induction xs) (auto split: if_splits)

lemma truthy_projected:
  "truthy (getcol (project (star newsletter_subscriptions_schema) x) ''is_active'')
     = truthy (getcol x ''is_active'')"
  by (simp add: getcol_project_star newsletter_columns)

lemma email_reactivated: "getcol (reactivated n t u y) ''email'' = getcol y ''email''"
  by (simp add: reactivated_def getcol_setcol)

lemma insert_subscription_email:
  assumes "sql_insert newsletter_subscriptions_schema ts rows
     [''email'', ''full_name'', ''unsubscribe_token'', ''is_active'', ''created_at'', ''updated_at'']
     [e, n, t, a, c, u] = Inr rows'"
  shows "distinct (map (\<lambda>r. getcol r ''email'') rows)
         \<Longrightarrow> distinct (map (\<lambda>r. getcol r ''email'') rows')"
proof -
  have m: "missing_column newsletter_subscriptions_schema
     [''email'', ''full_name'', ''unsubscribe_token'', ''is_active'', ''created_at'', ''updated_at''] = None"
    by (simp add: missing_column_def newsletter_columns)
  from assms show "distinct (map (\<lambda>r. getcol r ''email'') rows)
         \<Longrightarrow> distinct (map (\<lambda>r. getcol r ''email'') rows')"
    unfolding sql_insert_def m new_subscription_row
    by (auto simp: notnull_newsletter unique_newsletter getcol_Cons Let_def split: if_splits)
qed

lemma update_subscription_email:
  assumes "sql_update newsletter_subscriptions_schema rows
           [(''is_active'', a), (''full_name'', n), (''unsubscribe_token'', t),
            (''updated_at'', u)] w = Inr rows'"
  shows "map (\<lambda>r. getcol r ''email'') rows' = map (\<lambda>r. getcol r ''email'') rows"
proof -
  let ?upd = "fold (\<lambda>(c, v). setcol c v) [(''is_active'', a), (''full_name'', n),
      (''unsubscribe_token'', t), (''updated_at'', u)]"
  have e: "getcol (?upd r) ''email'' = getcol r ''email''" for r
    by (simp add: getcol_setcol)
  from assms have "rows' = map (\<lambda>r. if row_matches w r then ?upd r else r) rows"
    by (auto simp: sql_update_def Let_def split: option.splits if_splits)
  then show ?thesis
    using e by (simp add: comp_def if_distrib [of "\<lambda>r. getcol r ''email''"] cong: if_cong)
qed

lemma subscribe_handler_invariant:
  assumes "one_row_per_email d"
  shows "one_row_per_email (store (subscribe_handler E req d))"
  using assms
  by (auto simp: subscribe_handler_def one_row_per_email_def throw_def Let_def case_prod_beta
      update_subscription_email
      split: sum.splits option.splits dest: insert_subscription_email)

lemma subscribe_invariant:
  assumes "one_row_per_email d"
  shows "one_row_per_email (db_after (subscribe E req d))"
proof (cases "fst (run_chains (subscriptionValidationRules E) (body req))
                @ preference_errors (preferences req) = []")
  case True
  then show ?thesis
    unfolding subscribe_def
    by (simp add: route_accept catchAsync_def subscribe_handler_invariant [OF assms])
next
  case False
  then show ?thesis
    unfolding subscribe_def using assms by (simp add: route_reject)
qed

lemma subscribe_cases:
  assumes valid: "validation_errors (subscriptionValidationRules E) req
                    @ preference_errors (preferences req) = []"
    and inv: "one_row_per_email d"
    and wf: "list_all (notnull_ok newsletter_subscriptions_schema) (newsletter_subscriptions d)"
    and fresh: "TextV (random_token E)
                  \<notin> set (map (\<lambda>r. getcol r ''unsubscribe_token'') (newsletter_subscriptions d))"
  shows "one_row_per_email (db_after (subscribe E req d)) \<and>
    (case find (\<lambda>x. getcol x ''email'' = subscriber_email E req) (newsletter_subscriptions d) of
       Some x \<Rightarrow>
         if truthy (getcol x ''is_active'')
         then map_of (data (resp (subscribe E req d))) ''status'' = Some ''already_subscribed''
              \<and> db_after (subscribe E req d) = d
         else map_of (data (resp (subscribe E req d))) ''status'' = Some ''reactivated''
              \<and> (\<exists>n. db_after (subscribe E req d) = d\<lparr>newsletter_subscriptions :=
                    map (\<lambda>y. if getcol y ''email'' = subscriber_email E req
                              then reactivated n (random_token E) (current_timestamp E) y else y)
                      (newsletter_subscriptions d)\<rparr>)
     | None \<Rightarrow>
         map_of (data (resp (subscribe E req d))) ''status'' = Some ''subscribed''
         \<and> (\<exists>new. db_after (subscribe E req d) =
                     d\<lparr>newsletter_subscriptions := newsletter_subscriptions d @ [new]\<rparr>
                \<and> getcol new ''email'' = subscriber_email E req
                \<and> truthy (getcol new ''is_active'')))"
proof -
  let ?rows = "newsletter_subscriptions d"
  let ?s = "normalizeEmail E (to_string (body req ''email''))"
  let ?b = "snd (run_chains (subscriptionValidationRules E) (body req))"
  let ?req = "req\<lparr>body := ?b\<rparr>"
  let ?P = "\<lambda>x. getcol x ''email'' = TextV ?s"
  have run: "subscribe E req d = catchAsync E (subscribe_handler E ?req d)"
    unfolding subscribe_def using valid by (intro route_accept) (simp add: validation_errors_def)
  have em: "?b ''email'' = Some ?s"
    by (simp add: subscribe_body_email)
  have se: "subscriber_email E req = TextV ?s"
    by (simp add: subscriber_email_def)
  have d: "distinct (map (\<lambda>r. getcol r ''email'') ?rows)"
    using inv by (simp add: one_row_per_email_def)
  show ?thesis
  proof (cases "find ?P ?rows")
    case None
    then have no: "TextV ?s \<notin> set (map (\<lambda>x. getcol x ''email'') ?rows)"
      by (auto simp: find_None_iff)
    show ?thesis
      using None no fresh d
      apply (simp add: run se subscribe_handler_def em bind_def getRow_by_email insert_subscription
          catchAsync_def success_def one_row_per_email_def getcol_Cons getcol_Nil
          case_prod_beta Let_def)
      apply (intro exI conjI)
        apply (rule refl)
       apply (simp_all add: getcol_Cons getcol_Nil truthy_def)
      done
  next
    case (Some x)
    then have x: "x \<in> set ?rows" "getcol x ''email'' = TextV ?s"
      using find_SomeD [of ?P ?rows x] by simp_all
    show ?thesis
    proof (cases "truthy (getcol x ''is_active'')")
      case True
      then show ?thesis
        using Some inv
        by (simp add: run se subscribe_handler_def em bind_def getRow_by_email truthy_projected
            catchAsync_def success_def Let_def)
    next
      case False
      have keep: "(\<lambda>r. getcol r ''email'') \<circ>
          (\<lambda>y. if getcol y ''email'' = TextV ?s
                then reactivated n (random_token E) (current_timestamp E) y else y)
          = (\<lambda>r. getcol r ''email'')" for n
        by (auto simp: fun_eq_iff email_reactivated)
      show ?thesis
        using False Some d
        apply (simp add: run se subscribe_handler_def em bind_def getRow_by_email truthy_projected
            reactivate_update [OF d x wf fresh] catchAsync_def success_def
            one_row_per_email_def keep case_prod_beta Let_def)
        apply (rule exI)
        apply (rule refl)
        done
    qed
  qed
qed


text \<open>
  C4. Subscribing keeps at most one newsletter_subscriptions row per e-mail address, for
  every request. When the request passes validation, the stored rows satisfy their
  NOT NULL constraints and the fresh unsubscribe token is not yet in use: an address with
  an active row gets the answer \<open>already_subscribed\<close> and the store is unchanged; an
  address with an inactive row has that row updated in place (reactivated), every other row
  untouched and none added; an address with no row gets exactly one new, active row.
\<close>

theorem subscribe_one_row_per_email:
  assumes inv: "one_row_per_email d"
  shows "one_row_per_email (db_after (subscribe E req d)) \<and>
    (validation_errors (subscriptionValidationRules E) req
        @ preference_errors (preferences req) = []
     \<and> list_all (notnull_ok newsletter_subscriptions_schema) (newsletter_subscriptions d)
     \<and> TextV (random_token E)
          \<notin> set (map (\<lambda>r. getcol r ''unsubscribe_token'') (newsletter_subscriptions d))
     \<longrightarrow>
     (case find (\<lambda>x. getcol x ''email'' = subscriber_email E req) (newsletter_subscriptions d) of
       Some x \<Rightarrow>
         if truthy (getcol x ''is_active'')
         then map_of (data (resp (subscribe E req d))) ''status'' = Some ''already_subscribed''
              \<and> db_after (subscribe E req d) = d
         else map_of (data (resp (subscribe E req d))) ''status'' = Some ''reactivated''
              \<and> (\<exists>n. db_after (subscribe E req d) = d\<lparr>newsletter_subscriptions :=
                    map (\<lambda>y. if getcol y ''email'' = subscriber_email E req
                              then reactivated n (random_token E) (current_timestamp E) y else y)
                      (newsletter_subscriptions d)\<rparr>)
     | None \<Rightarrow>
         map_of (data (resp (subscribe E req d))) ''status'' = Some ''subscribed''
         \<and> (\<exists>new. db_after (subscribe E req d) =
                     d\<lparr>newsletter_subscriptions := newsletter_subscriptions d @ [new]\<rparr>
                \<and> getcol new ''email'' = subscriber_email E req
                \<and> truthy (getcol new ''is_active''))))"
proof (intro conjI impI)
  show "one_row_per_email (db_after (subscribe E req d))"
    by (rule subscribe_invariant [OF inv])
next
  assume h: "validation_errors (subscriptionValidationRules E) req
        @ preference_errors (preferences req) = []
     \<and> list_all (notnull_ok newsletter_subscriptions_schema) (newsletter_subscriptions d)
     \<and> TextV (random_token E)
          \<notin> set (map (\<lambda>r. getcol r ''unsubscribe_token'') (newsletter_subscriptions d))"
  from subscribe_cases [OF _ inv, of E req] h
  show "case find (\<lambda>x. getcol x ''email'' = subscriber_email E req) (newsletter_subscriptions d) of
       Some x \<Rightarrow>
         if truthy (getcol x ''is_active'')
         then map_of (data (resp (subscribe E req d))) ''status'' = Some ''already_subscribed''
              \<and> db_after (subscribe E req d) = d
         else map_of (data (resp (subscribe E req d))) ''status'' = Some ''reactivated''
              \<and> (\<exists>n. db_after (subscribe E req d) = d\<lparr>newsletter_subscriptions :=
                    map (\<lambda>y. if getcol y ''email'' = subscriber_email E req
                              then reactivated n (random_token E) (current_timestamp E) y else y)
                      (newsletter_subscriptions d)\<rparr>)
     | None \<Rightarrow>
         map_of (data (resp (subscribe E req d))) ''status'' = Some ''subscribed''
         \<and> (\<exists>new. db_after (subscribe E req d) =
                     d\<lparr>newsletter_subscriptions := newsletter_subscriptions d @ [new]\<rparr>
                \<and> getcol new ''email'' = subscriber_email E req
                \<and> truthy (getcol new ''is_active''))"
    by blast
qed

text \<open>
  The scenario of the specification: \<open>a@b.com\<close> is subscribed and active, and subscribes
  again.
\<close>

theorem subscribe_one_row_per_email_witness:
  "validation_errors (subscriptionValidationRules sample_env) subscribe_request
     @ preference_errors (preferences subscribe_request) = []
   \<and> one_row_per_email sample_db
   \<and> list_all (notnull_ok newsletter_subscriptions_schema) (newsletter_subscriptions sample_db)
   \<and> TextV (random_token sample_env)
        \<notin> set (map (\<lambda>r. getcol r ''unsubscribe_token'') (newsletter_subscriptions sample_db))
   \<and> one_row_per_email (db_after (subscribe sample_env subscribe_request sample_db))
   \<and> map_of (data (resp (subscribe sample_env subscribe_request sample_db))) ''status''
        = Some ''already_subscribed''
   \<and> db_after (subscribe sample_env subscribe_request sample_db) = sample_db"
proof -
  have h1: "validation_errors (subscriptionValidationRules sample_env) subscribe_request
     @ preference_errors (preferences subscribe_request) = []"
    by (simp add: validation_errors_def subscriptionValidationRules_def run_chain_def
        subscribe_request_def empty_request_def preference_errors_def sample_env_def to_string_def)
  have h2: "one_row_per_email sample_db"
    by (simp add: one_row_per_email_def sample_db_def)
  have h3: "list_all (notnull_ok newsletter_subscriptions_schema) (newsletter_subscriptions sample_db)"
    by (simp add: sample_db_def notnull_newsletter sample_subscription_def getcol_Cons)
  have h4: "TextV (random_token sample_env)
        \<notin> set (map (\<lambda>r. getcol r ''unsubscribe_token'') (newsletter_subscriptions sample_db))"
    by (simp add: sample_db_def sample_subscription_def getcol_Cons sample_env_def sample_token_def)
  have f: "find (\<lambda>x. getcol x ''email'' = subscriber_email sample_env subscribe_request)
      (newsletter_subscriptions sample_db) = Some sample_subscription"
    by (simp add: sample_db_def sample_subscription_def getcol_Cons subscriber_email_def
        sample_env_def subscribe_request_def empty_request_def to_string_def)
  have t: "truthy (getcol sample_subscription ''is_active'')"
    by (simp add: sample_subscription_def getcol_Cons truthy_def)
  from subscribe_one_row_per_email [OF h2, of sample_env subscribe_request] h1 h2 h3 h4
  show ?thesis
    by (simp add: f t)
qed

subsection \<open>Status updates\<close>

lemma status_rule_errors:
  "fst (run_chains (enum_chain ''status'' False vs m # cs) b) \<noteq> []" if "to_string (b ''status'') \<notin> set vs"
  using that by (simp add: enum_chain_def run_chain_def isIn_def split: prod.splits)

text \<open>
  C5. A status update whose status is outside the enumeration of its kind (an absent status
  counts as the empty string) is answered with 400, and the store after the request is the
  store before it: no row and no column has changed.
\<close>

theorem status_outside_enumeration_rejected:
  "(to_string (body req ''status'') \<notin> set contact_statuses \<longrightarrow>
      statusCode (resp (contact_status E req d)) = 400 \<and> db_after (contact_status E req d) = d)
   \<and> (to_string (body req ''status'') \<notin> set feedback_statuses \<longrightarrow>
      statusCode (resp (feedback_status E req d)) = 400 \<and> db_after (feedback_status E req d) = d)"
proof (intro conjI impI)
  assume a: "to_string (body req ''status'') \<notin> set contact_statuses"
  have "fst (run_chains contactStatusRules (body req)) \<noteq> []"
    unfolding contactStatusRules_def
    by (rule status_rule_errors [where b = "body req" and vs = contact_statuses, OF a])
  then have e: "fst (run_chains contactStatusRules (body req)) @ [] \<noteq> []"
    by simp
  show "statusCode (resp (contact_status E req d)) = 400"
    unfolding contact_status_def by (rule route_reject_400 (1) [OF e])
  show "db_after (contact_status E req d) = d"
    unfolding contact_status_def by (rule route_reject_400 (2) [OF e])
next
  assume a: "to_string (body req ''status'') \<notin> set feedback_statuses"
  have "fst (run_chains feedbackStatusRules (body req)) \<noteq> []"
    unfolding feedbackStatusRules_def
    by (rule status_rule_errors [where b = "body req" and vs = feedback_statuses, OF a])
  then have e: "fst (run_chains feedbackStatusRules (body req)) @ [] \<noteq> []"
    by simp
  show "statusCode (resp (feedback_status E req d)) = 400"
    unfolding feedback_status_def by (rule route_reject_400 (1) [OF e])
  show "db_after (feedback_status E req d) = d"
    unfolding feedback_status_def by (rule route_reject_400 (2) [OF e])
qed

theorem status_outside_enumeration_rejected_witness:
  "to_string (body feedback_patch_invalid ''status'') \<notin> set contact_statuses
   \<and> to_string (body feedback_patch_invalid ''status'') \<notin> set feedback_statuses
   \<and> statusCode (resp (contact_status sample_env feedback_patch_invalid sample_db)) = 400
   \<and> db_after (contact_status sample_env feedback_patch_invalid sample_db) = sample_db
   \<and> statusCode (resp (feedback_status sample_env feedback_patch_invalid sample_db)) = 400
   \<and> db_after (feedback_status sample_env feedback_patch_invalid sample_db) = sample_db"
proof -
  have h1: "to_string (body feedback_patch_invalid ''status'') \<notin> set contact_statuses"
    by (simp add: feedback_patch_invalid_def empty_request_def to_string_def contact_statuses_def)
  have h2: "to_string (body feedback_patch_invalid ''status'') \<notin> set feedback_statuses"
    by (simp add: feedback_patch_invalid_def empty_request_def to_string_def feedback_statuses_def)
  from status_outside_enumeration_rejected [of feedback_patch_invalid sample_env sample_db] h1 h2
  show ?thesis by simp
qed

lemma contact_status_handler_throws:
  "contact_status_handler E req d = throw (ReferenceError ''getRow'') d"
  by (simp add: contact_status_handler_def contact_js_getRow_def)

lemma contact_status_never_succeeds:
  "db_after (contact_status E req d) = d \<and>
   (statusCode (resp (contact_status E req d)) = 400
    \<or> statusCode (resp (contact_status E req d)) = 500)"
proof (cases "fst (run_chains contactStatusRules (body req)) @ [] = []")
  case True
  then show ?thesis
    by (simp add: contact_status_def route_accept contact_status_handler_throws)
next
  case False
  then show ?thesis
    unfolding contact_status_def using route_reject_400 [OF False] by simp
qed

lemma feedback_columns:
  "column_names feedback_schema =
     [''id'', ''feedback_id'', ''full_name'', ''email'', ''phone'', ''visa_type'',
      ''service_rating'', ''would_recommend'', ''feedback_title'', ''feedback_message'',
      ''aspects_impressed'', ''allow_public_display'', ''allow_contact'', ''status'',
      ''is_featured'', ''created_at'', ''updated_at'']"
  by (simp add: column_names_def feedback_schema_def col_def)

lemma feedback_update_admin_notes:
  "sql_update feedback_schema rows [(''status'', s), (''admin_notes'', n), (''updated_at'', u)] w
     = Inl (no_such_column ''admin_notes'')"
  by (simp add: sql_update_def missing_column_def feedback_columns)

lemma feedback_status_handler_throws:
  "\<exists>e. feedback_status_handler E req d = throw e d"
  by (auto simp: feedback_status_handler_def feedback_update_admin_notes Let_def
      split: sum.splits option.splits)

lemma statusCode_errorHandler: "statusCode (errorHandler E e) = error_statusCode e"
  by (cases e) (simp_all add: errorHandler_def error_statusCode_def isOperational_def)

lemma feedback_status_never_succeeds:
  "db_after (feedback_status E req d) = d \<and> statusCode (resp (feedback_status E req d)) \<noteq> 200"
proof (cases "fst (run_chains feedbackStatusRules (body req)) @ [] = []")
  case True
  have "error_statusCode e \<noteq> 200"
    if "feedback_status_handler E r d = throw e d" for e r
    using that
    by (auto simp: feedback_status_handler_def feedback_update_admin_notes throw_def Let_def
        error_statusCode_def no_such_column_def getRow_def sql_select_def
        split: sum.splits option.splits error.splits list.splits)
  moreover obtain e where
    "feedback_status_handler E (req\<lparr>body := snd (run_chains feedbackStatusRules (body req))\<rparr>) d
       = throw e d"
    using feedback_status_handler_throws by blast
  ultimately show ?thesis
    using True by (simp add: feedback_status_def route_accept statusCode_errorHandler)
next
  case False
  then show ?thesis
    unfolding feedback_status_def using route_reject_400 [OF False] by simp
qed

text \<open>
  C2. The two status updates carry an allowed status and name a stored record; the third
  names no stored contact message. The claim says 200 with the new status stored, and 404
  for the unknown identifier. The contact handler calls \<open>getRow\<close>, which contact.js does
  not import: every valid request ends in 500, found or not. The feedback handler finds the
  row, but its UPDATE sets a column \<open>admin_notes\<close> that the feedback table does not have:
  the request ends in 500 and the stored status stays as it was.
\<close>

theorem status_update_fails:
  "to_string (body contact_patch_request ''status'') \<in> set contact_statuses
   \<and> getcol sample_message ''message_id'' = TextV (params contact_patch_request ''contactId'')
   \<and> statusCode (resp (contact_status sample_env contact_patch_request sample_db)) = 500
   \<and> db_after (contact_status sample_env contact_patch_request sample_db) = sample_db
   \<and> statusCode (resp (contact_status sample_env contact_patch_unknown sample_db)) = 500
   \<and> to_string (body feedback_patch_request ''status'') \<in> set feedback_statuses
   \<and> getcol sample_feedback ''feedback_id'' = TextV (params feedback_patch_request ''feedbackId'')
   \<and> statusCode (resp (feedback_status sample_env feedback_patch_request sample_db)) = 500
   \<and> db_after (feedback_status sample_env feedback_patch_request sample_db) = sample_db
   \<and> getcol sample_feedback ''status'' = TextV ''pending''"
proof -
  have c1: "fst (run_chains contactStatusRules (body contact_patch_request)) @ [] = []"
    by (simp add: contactStatusRules_def enum_chain_def text_chain_def run_chain_def isIn_def
        contact_patch_request_def empty_request_def to_string_def contact_statuses_def)
  have c2: "fst (run_chains contactStatusRules (body contact_patch_unknown)) @ [] = []"
    by (simp add: contactStatusRules_def enum_chain_def text_chain_def run_chain_def isIn_def
        contact_patch_unknown_def empty_request_def to_string_def contact_statuses_def)
  have f: "fst (run_chains feedbackStatusRules (body feedback_patch_request)) @ [] = []"
    by (simp add: feedbackStatusRules_def enum_chain_def text_chain_def run_chain_def isIn_def
        feedback_patch_request_def empty_request_def to_string_def feedback_statuses_def)
  have g: "getRow feedback_schema (feedback sample_db) (star feedback_schema)
      [(''feedback_id'', TextV ''FB-1746093600000-Z81ABC'')]
      = Inr (Some (project (star feedback_schema) sample_feedback))"
    by (simp add: getRow_def sql_select_def missing_column_def star_def feedback_columns
        sample_db_def row_matches_def sql_eq_def sample_feedback_def getcol_Cons)
  have 1: "to_string (body contact_patch_request ''status'') \<in> set contact_statuses"
    by (simp add: contact_patch_request_def empty_request_def to_string_def contact_statuses_def)
  have 2: "getcol sample_message ''message_id'' = TextV (params contact_patch_request ''contactId'')"
    by (simp add: sample_message_def getcol_Cons contact_patch_request_def empty_request_def)
  have 3: "statusCode (resp (contact_status sample_env contact_patch_request sample_db)) = 500
     \<and> db_after (contact_status sample_env contact_patch_request sample_db) = sample_db
     \<and> statusCode (resp (contact_status sample_env contact_patch_unknown sample_db)) = 500"
    by (simp add: contact_status_def route_accept [OF c1] route_accept [OF c2]
        contact_status_handler_throws)
  have 4: "to_string (body feedback_patch_request ''status'') \<in> set feedback_statuses"
    by (simp add: feedback_patch_request_def empty_request_def to_string_def feedback_statuses_def)
  have 5: "getcol sample_feedback ''feedback_id''
      = TextV (params feedback_patch_request ''feedbackId'')"
    by (simp add: sample_feedback_def getcol_Cons feedback_patch_request_def empty_request_def)
  have "feedback_status sample_env feedback_patch_request sample_db =
      catchAsync sample_env (feedback_status_handler sample_env
        (feedback_patch_request\<lparr>body := snd (run_chains feedbackStatusRules
           (body feedback_patch_request))\<rparr>) sample_db)"
    unfolding feedback_status_def by (rule route_accept [OF f])
  then have 6: "statusCode (resp (feedback_status sample_env feedback_patch_request sample_db)) = 500
     \<and> db_after (feedback_status sample_env feedback_patch_request sample_db) = sample_db"
    by (simp add: feedback_status_handler_def feedback_patch_request_def empty_request_def g
        feedback_update_admin_notes no_such_column_def Let_def)
  have 7: "getcol sample_feedback ''status'' = TextV ''pending''"
    by (simp add: sample_feedback_def getcol_Cons)
  from 1 2 3 4 5 6 7 show ?thesis by blast
qed

subsection \<open>Listing\<close>

lemma feedback_list_handler_throws: "\<exists>e. feedback_list_handler E req d = throw (SqlError e) d"
  by (auto simp: feedback_list_handler_def getRows_def missing_column_def feedback_columns
      no_such_column_def Let_def split: option.splits)

lemma contact_list_handler_throws:
  "\<exists>e. contact_list_handler E req d = throw e d \<and> error_statusCode e = 500"
  by (auto simp: contact_list_handler_def contact_js_getRow_def getRows_def Let_def
      no_such_column_def error_statusCode_def split: option.splits sum.splits)

lemma list_never_succeeds:
  "statusCode (resp (feedback_list E req d)) = 500 \<and> statusCode (resp (contact_list E req d)) = 500"
proof -
  obtain e where "feedback_list_handler E req d = throw (SqlError e) d"
    using feedback_list_handler_throws by blast
  moreover obtain e' where "contact_list_handler E req d = throw e' d" "error_statusCode e' = 500"
    using contact_list_handler_throws by blast
  ultimately show ?thesis
    by (simp add: feedback_list_def contact_list_def statusCode_errorHandler error_statusCode_def)
qed

text \<open>
  C6. \<open>GET /api/feedback?status=approved&page=2&limit=10\<close> and the same query on
  \<open>/api/contact/messages\<close>. The claim describes the page they return. The feedback
  query selects columns \<open>name\<close>, \<open>service_used\<close>, \<open>rating\<close>, \<open>feedback_type\<close> and
  \<open>subject\<close>, none of which the feedback table has, and the contact handler computes its
  total with \<open>getRow\<close>, which contact.js does not import: both requests end in 500 and
  return no page.
\<close>

theorem list_with_status_filter_fails:
  "statusCode (resp (feedback_list sample_env list_request sample_db)) = 500
   \<and> records (resp (feedback_list sample_env list_request sample_db)) = []
   \<and> statusCode (resp (contact_list sample_env list_request sample_db)) = 500
   \<and> records (resp (contact_list sample_env list_request sample_db)) = []"
proof -
  obtain e where e: "feedback_list_handler sample_env list_request sample_db
      = throw (SqlError e) sample_db"
    using feedback_list_handler_throws by blast
  obtain e' where e': "contact_list_handler sample_env list_request sample_db = throw e' sample_db"
    using contact_list_handler_throws by blast
  have "records (errorHandler sample_env x) = []" for x
    by (simp add: errorHandler_def)
  then show ?thesis
    using list_never_succeeds [of sample_env list_request sample_db]
    by (simp add: feedback_list_def contact_list_def e e')
qed

subsection \<open>Notification failures\<close>

lemma env_transport [simp]:
  "errorHandler (E\<lparr>transport_ok := t\<rparr>) e = errorHandler E e"
  "generate_id (E\<lparr>transport_ok := t\<rparr>) p n = generate_id E p n"
  "arrival_not_past (E\<lparr>transport_ok := t\<rparr>) = arrival_not_past E"
  "departure_after_arrival (E\<lparr>transport_ok := t\<rparr>) = departure_after_arrival E"
  "email_chain (E\<lparr>transport_ok := t\<rparr>) = email_chain E"
  by (auto simp: errorHandler_def generate_id_def random_toString36_def fun_eq_iff
      arrival_not_past_def departure_after_arrival_def moment_of_def email_chain_def
      split: option.splits)



lemma result_throw [simp]: "result (throw e d) = Inl e" "store (throw e d) = d"
  by (simp_all add: throw_def)









subsection \<open>Validation chains in closed form\<close>

lemma fst_run_steps [simp]:
  "fst (run_steps f b [] v) = []"
  "fst (run_steps f b (Sanitize g # ss) v) = fst (run_steps f b ss (Some (g (to_string v))))"
  "fst (run_steps f b (Validate p m # ss) v) =
     (if p (to_string v) then [] else [ValidationError f m v]) @ fst (run_steps f b ss v)"
  "fst (run_steps f b (Custom c # ss) v) =
     (case c b v of None \<Rightarrow> [] | Some m \<Rightarrow> [ValidationError f m v]) @ fst (run_steps f b ss v)"
  by (simp_all add: case_prod_beta)

lemma snd_run_steps [simp]:
  "snd (run_steps f b [] v) = v"
  "snd (run_steps f b (Sanitize g # ss) v) = snd (run_steps f b ss (Some (g (to_string v))))"
  "snd (run_steps f b (Validate p m # ss) v) = snd (run_steps f b ss v)"
  "snd (run_steps f b (Custom c # ss) v) = snd (run_steps f b ss v)"
  by (simp_all add: case_prod_beta)

lemma fst_run_chain:
  "fst (run_chain c b) =
     (if optional c then (if b (cfield c) = None then []
                          else fst (run_steps (cfield c) b (steps c) (b (cfield c))))
      else fst (run_steps (cfield c) b (steps c) (b (cfield c))))"
  by (simp add: run_chain_def case_prod_beta)

lemma snd_run_chain:
  "snd (run_chain c b) f =
     (if f = cfield c
      then (if optional c then (if b f = None then None
                                else snd (run_steps (cfield c) b (steps c) (b f)))
            else snd (run_steps (cfield c) b (steps c) (b f)))
      else b f)"
  by (auto simp: run_chain_def case_prod_beta)

declare run_steps.simps [simp del] run_chains.simps [simp del]

lemma fst_run_chains [simp]:
  "fst (run_chains [] b) = []"
  "fst (run_chains (c # cs) b) = fst (run_chain c b) @ fst (run_chains cs (snd (run_chain c b)))"
  by (simp_all add: case_prod_beta run_chains.simps)

lemma snd_run_chains [simp]:
  "snd (run_chains [] b) f = b f"
  "snd (run_chains (c # cs) b) f = snd (run_chains cs (snd (run_chain c b))) f"
  by (simp_all add: case_prod_beta run_chains.simps)

lemma if_error_Nil [simp]:
  "((if p then [] else [e]) = []) = p"
  "((case g of None \<Rightarrow> [] | Some m \<Rightarrow> [h m]) = []) = (g = None)"
  by (simp_all split: option.splits)



lemma if_Nil_eq [simp]: "((if c then [] else xs) = []) = (\<not> c \<longrightarrow> xs = [])"
  by simp




lemma digit_char_is_digit: "is_digit (digit_char n)"
proof -
  have "n mod 10 < length ''0123456789''" by simp
  then have "''0123456789'' ! (n mod 10) \<in> set ''0123456789''" by (rule nth_mem)
  then show ?thesis by (simp only: is_digit_def digit_char_def)
qed

lemma digits10_digits: "digits10 n \<noteq> [] \<and> list_all is_digit (digits10 n)"
proof (induction n rule: digits10.induct)
  case (1 n)
  show ?case
  proof (cases "n < 10")
    case True
    then show ?thesis by (subst (1 2) digits10.simps) (simp add: digit_char_is_digit)
  next
    case False
    with 1 show ?thesis by (subst (1 2) digits10.simps) (simp add: digit_char_is_digit)
  qed
qed






lemma not_digit_hyphen: "\<not> is_digit CHR ''-''"
  by (simp add: is_digit_def)


lemma generated_id_without_digits:
  assumes "random_digits E = []"
  shows "\<not> matches_id p (generate_id E p n)"
proof -
  let ?ds = "digits10 (date_now E)"
  have g: "generate_id E p n = p @ CHR ''-'' # ?ds @ [CHR ''-'']"
    using assms by (simp add: generate_id_def random_toString36_def substr_def toUpperCase_def)
  have d: "list_all is_digit ?ds"
    using digits10_digits by simp
  have t: "takeWhile is_digit (?ds @ [CHR ''-'']) = ?ds"
    using d not_digit_hyphen by (simp add: takeWhile_append2 list_all_iff)
  show ?thesis
    unfolding matches_id_def g by (simp add: t Let_def matches_upper_alnum_def)
qed










lemma route_rejection:
  assumes "fst (run_chains rules (body req)) @ extra \<noteq> []"
  shows "statusCode (resp (route E rules extra h req d)) = 400
     \<and> errors (resp (route E rules extra h req d))
         = map entry_of (fst (run_chains rules (body req)) @ extra)
     \<and> db_after (route E rules extra h req d) = d"
  using assms by (simp add: route_reject handleValidationErrors_def entry_of_def [abs_def])


lemma to_string_simps [simp]: "to_string (Some s) = s" "to_string None = []"
  by (simp_all add: to_string_def)








subsection \<open>What a feedback submission stores\<close>







subsection \<open>Every validation failure is reported\<close>

lemma run_chains_append:
  "run_chains (xs @ ys) b =
     (fst (run_chains xs b) @ fst (run_chains ys (snd (run_chains xs b))),
      snd (run_chains ys (snd (run_chains xs b))))"
  by (induction xs arbitrary: b) (simp_all add: run_chains.simps case_prod_beta)

lemma chain_errors_append:
  assumes "i < length xs"
  shows "chain_errors (xs @ ys) b i = chain_errors xs b i"
  using assms by (simp add: chain_errors_def nth_append)

lemma chain_errors_last:
  "chain_errors (xs @ [c]) b (length xs) = fst (run_chain c (snd (run_chains xs b)))"
  by (simp add: chain_errors_def)

lemma errors_by_chain:
  "fst (run_chains rules b) = concat (map (chain_errors rules b) [0..<length rules])"
proof (induction rules rule: rev_induct)
  case Nil
  show ?case by (simp add: run_chains.simps)
next
  case (snoc c cs)
  have m: "map (chain_errors (cs @ [c]) b) [0..<length cs] = map (chain_errors cs b) [0..<length cs]"
    by (rule map_cong) (simp_all add: chain_errors_append)
  have "fst (run_chains (cs @ [c]) b)
      = fst (run_chains cs b) @ fst (run_chain c (snd (run_chains cs b)))"
    by (simp add: run_chains_append run_chains.simps case_prod_beta)
  also have "\<dots> = concat (map (chain_errors cs b) [0..<length cs])
      @ chain_errors (cs @ [c]) b (length cs)"
    by (simp only: snoc.IH chain_errors_last)
  also have "\<dots> = concat (map (chain_errors (cs @ [c]) b) [0..<length (cs @ [c])])"
    by (simp add: m)
  finally show ?case .
qed

lemma chain_errors_reported:
  assumes "i < length rules"
  shows "set (chain_errors rules b i) \<subseteq> set (fst (run_chains rules b))"
  using assms unfolding errors_by_chain by auto







subsection \<open>Visa applications: the cross-field checks\<close>

lemma visa_valid_iff:
  "fst (run_chains (visaValidationRules E) b) = [] \<longleftrightarrow>
     isLength 2 (Some 100) (trim (to_string (b ''full_name'')))
   \<and> matches_name (trim (to_string (b ''full_name'')))
   \<and> isEmail E (to_string (b ''email''))
   \<and> matches_phone (trim (to_string (b ''phone'')))
   \<and> isLength 2 (Some 50) (trim (to_string (b ''nationality'')))
   \<and> isLength 6 (Some 20) (trim (to_string (b ''passport_number'')))
   \<and> matches_upper_alnum (trim (to_string (b ''passport_number'')))
   \<and> isIn [''tourist'', ''business'', ''transit'', ''work'', ''student'', ''family'', ''medical'']
        (to_string (b ''visa_type''))
   \<and> isLength 10 (Some 500) (trim (to_string (b ''purpose_of_visit'')))
   \<and> isInt 1 365 (to_string (b ''duration_of_stay''))
   \<and> isISO8601 E (to_string (b ''arrival_date''))
   \<and> arrival_not_past E b (b ''arrival_date'') = None
   \<and> isISO8601 E (to_string (b ''departure_date''))
   \<and> departure_after_arrival E b (b ''departure_date'') = None
   \<and> (b ''accommodation_details'' \<noteq> None \<longrightarrow>
        isLength 0 (Some 500) (trim (to_string (b ''accommodation_details''))))
   \<and> (b ''sponsor_information'' \<noteq> None \<longrightarrow>
        isLength 0 (Some 500) (trim (to_string (b ''sponsor_information''))))
   \<and> isIn [''yes'', ''no''] (to_string (b ''previous_uae_visit''))
   \<and> isIn [''yes'', ''no''] (to_string (b ''criminal_record''))
   \<and> (b ''medical_conditions'' \<noteq> None \<longrightarrow>
        isLength 0 (Some 500) (trim (to_string (b ''medical_conditions''))))
   \<and> isLength 2 (Some 100) (trim (to_string (b ''emergency_contact_name'')))
   \<and> matches_phone (trim (to_string (b ''emergency_contact_phone'')))
   \<and> isLength 2 (Some 50) (trim (to_string (b ''emergency_contact_relationship'')))"
  by (simp add: visaValidationRules_def name_chain_def email_chain_def enum_chain_def
      text_chain_def phone_chain_def fst_run_chain snd_run_chain
      arrival_not_past_def departure_after_arrival_def)

lemma visa_body:
  shows "snd (run_chains (visaValidationRules E) b) ''full_name'' = Some (trim (to_string (b ''full_name'')))"
    and "snd (run_chains (visaValidationRules E) b) ''email'' = Some (normalizeEmail E (to_string (b ''email'')))"
    and "snd (run_chains (visaValidationRules E) b) ''phone'' = Some (trim (to_string (b ''phone'')))"
    and "snd (run_chains (visaValidationRules E) b) ''nationality'' = Some (trim (to_string (b ''nationality'')))"
    and "snd (run_chains (visaValidationRules E) b) ''passport_number'' = Some (trim (to_string (b ''passport_number'')))"
    and "snd (run_chains (visaValidationRules E) b) ''visa_type'' = b ''visa_type''"
    and "snd (run_chains (visaValidationRules E) b) ''purpose_of_visit'' = Some (trim (to_string (b ''purpose_of_visit'')))"
    and "snd (run_chains (visaValidationRules E) b) ''duration_of_stay'' = b ''duration_of_stay''"
    and "snd (run_chains (visaValidationRules E) b) ''arrival_date'' = b ''arrival_date''"
    and "snd (run_chains (visaValidationRules E) b) ''departure_date'' = b ''departure_date''"
    and "snd (run_chains (visaValidationRules E) b) ''accommodation_details'' =
           (if b ''accommodation_details'' = None then None
            else Some (trim (to_string (b ''accommodation_details''))))"
    and "snd (run_chains (visaValidationRules E) b) ''sponsor_information'' =
           (if b ''sponsor_information'' = None then None
            else Some (trim (to_string (b ''sponsor_information''))))"
    and "snd (run_chains (visaValidationRules E) b) ''previous_uae_visit'' = b ''previous_uae_visit''"
    and "snd (run_chains (visaValidationRules E) b) ''criminal_record'' = b ''criminal_record''"
    and "snd (run_chains (visaValidationRules E) b) ''medical_conditions'' =
           (if b ''medical_conditions'' = None then None
            else Some (trim (to_string (b ''medical_conditions''))))"
    and "snd (run_chains (visaValidationRules E) b) ''emergency_contact_name'' =
           Some (trim (to_string (b ''emergency_contact_name'')))"
    and "snd (run_chains (visaValidationRules E) b) ''emergency_contact_phone'' =
           Some (trim (to_string (b ''emergency_contact_phone'')))"
    and "snd (run_chains (visaValidationRules E) b) ''emergency_contact_relationship'' =
           Some (trim (to_string (b ''emergency_contact_relationship'')))"
  by (simp_all add: visaValidationRules_def name_chain_def email_chain_def enum_chain_def
      text_chain_def phone_chain_def snd_run_chain)

lemma visa_request_body:
  shows "body visa_request ''full_name'' = Some ''Jane Doe''"
    and "body visa_request ''email'' = Some ''jane@example.com''"
    and "body visa_request ''phone'' = Some ''+971501234567''"
    and "body visa_request ''nationality'' = Some ''Indian''"
    and "body visa_request ''passport_number'' = Some ''A1234567''"
    and "body visa_request ''visa_type'' = Some ''tourist''"
    and "body visa_request ''purpose_of_visit'' = Some ''Family holiday in Dubai''"
    and "body visa_request ''duration_of_stay'' = Some ''6''"
    and "body visa_request ''arrival_date'' = Some ''2025-06-10''"
    and "body visa_request ''departure_date'' = Some ''2025-06-15''"
    and "body visa_request ''accommodation_details'' = None"
    and "body visa_request ''sponsor_information'' = None"
    and "body visa_request ''previous_uae_visit'' = Some ''no''"
    and "body visa_request ''criminal_record'' = Some ''no''"
    and "body visa_request ''medical_conditions'' = None"
    and "body visa_request ''emergency_contact_name'' = Some ''John Doe''"
    and "body visa_request ''emergency_contact_phone'' = Some ''+971501234568''"
    and "body visa_request ''emergency_contact_relationship'' = Some ''Brother''"
  by (simp_all add: visa_request_def empty_request_def)

lemma sample_trims:
  shows "trim ''Jane Doe'' = ''Jane Doe''"
    and "trim ''+971501234567'' = ''+971501234567''"
    and "trim ''Indian'' = ''Indian''"
    and "trim ''A1234567'' = ''A1234567''"
    and "trim ''Family holiday in Dubai'' = ''Family holiday in Dubai''"
    and "trim ''John Doe'' = ''John Doe''"
    and "trim ''+971501234568'' = ''+971501234568''"
    and "trim ''Brother'' = ''Brother''"
  by (simp_all add: trim_def is_space_def)

lemma sample_dates:
  shows "sample_date ''2025-06-10'' = Some 20249"
    and "sample_date ''2025-06-15'' = Some 20254"
  by (simp_all add: sample_date_def days_from_civil_def nat_of_digits_def digit_value_def
      is_digit_def Let_def)

lemma sample_visa_valid:
  "validation_errors (visaValidationRules sample_env) visa_request = []"
proof -
  have 1: "matches_name ''Jane Doe''" "matches_name ''John Doe''"
    by (simp_all add: matches_name_def is_lower_def is_upper_def is_space_def)
  have 2: "matches_phone ''+971501234567''" "matches_phone ''+971501234568''"
    by (simp_all add: matches_phone_def is_digit_def)
  have 3: "matches_upper_alnum ''A1234567''"
    by (simp add: matches_upper_alnum_def is_digit_def is_upper_def)
  have 4: "isInt 1 365 ''6''"
    by (simp add: isInt_def int_syntax_def number_of_def nat_of_digits_def digit_value_def
        is_digit_def)
  have 5: "isEmail sample_env ''jane@example.com''"
    by (simp add: sample_env_def)
  have 6: "isISO8601 sample_env ''2025-06-10''" "isISO8601 sample_env ''2025-06-15''"
    by (simp_all add: sample_env_def sample_dates)
  have 7: "arrival_not_past sample_env b (Some ''2025-06-10'') = None" for b
    by (simp add: arrival_not_past_def moment_of_def sample_env_def sample_dates)
  have 8: "departure_after_arrival sample_env (body visa_request) (Some ''2025-06-15'') = None"
    by (simp add: departure_after_arrival_def moment_of_def visa_request_body sample_env_def
        sample_dates)
  show ?thesis
    unfolding validation_errors_def visa_valid_iff
    unfolding visa_request_body to_string_simps sample_trims
    using 1 2 3 4 5 6 7 8 by (simp add: isLength_def isIn_def)
qed

lemma sample_duration_mismatch:
  "fst (run_chain (durationMatchesDates sample_env) (body visa_request)) =
     [ValidationError ''duration_of_stay''
        ''Duration of stay (6 days) does not match the date range (5 days)'' (Some ''6'')]"
proof -
  have d: "diff_days sample_env ''2025-06-15'' ''2025-06-10'' = Some 5"
    by (simp add: sample_env_def sample_dates)
  have p: "parseInt ''6'' = Some 6"
    by (simp add: parseInt_def is_space_def is_digit_def nat_of_digits_def digit_value_def Let_def)
  have s: "show_int 5 = ''5''"
    by (simp add: show_int_def digits10.simps digit_char_def)
  show ?thesis
    by (simp add: durationMatchesDates_def fst_run_chain visa_request_body present_def d p s
        Let_def)
qed

lemma visa_columns:
  "column_names visa_applications_schema =
     [''id'', ''application_id'', ''full_name'', ''email'', ''phone'', ''nationality'',
      ''passport_number'', ''visa_type'', ''purpose_of_visit'', ''duration_of_stay'',
      ''arrival_date'', ''departure_date'', ''accommodation_details'', ''sponsor_information'',
      ''previous_uae_visit'', ''criminal_record'', ''medical_conditions'',
      ''emergency_contact_name'', ''emergency_contact_phone'',
      ''emergency_contact_relationship'', ''passport_copy_path'', ''photo_path'', ''cv_path'',
      ''additional_documents_path'', ''status'', ''created_at'', ''updated_at'']"
  by (simp add: column_names_def visa_applications_schema_def col_def)

lemma new_visa_row:
  "new_row visa_applications_schema ts rows
     (zip [''application_id'', ''full_name'', ''email'', ''phone'', ''nationality'',
           ''passport_number'', ''visa_type'', ''purpose_of_visit'', ''duration_of_stay'',
           ''arrival_date'', ''departure_date'', ''accommodation_details'',
           ''sponsor_information'', ''previous_uae_visit'', ''criminal_record'',
           ''medical_conditions'', ''emergency_contact_name'', ''emergency_contact_phone'',
           ''emergency_contact_relationship'', ''passport_copy_path'', ''photo_path'',
           ''cv_path'', ''additional_documents_path'', ''status'', ''created_at'',
           ''updated_at'']
          [i, fn, em, ph, na, pn, vt, pv, du, ar, de, ac, sp, pu, cr, mc, en, ep, er, pc, pp, cv,
           ad, st, ca, ua]) =
   [(''id'', IntV (next_id rows)), (''application_id'', i), (''full_name'', fn), (''email'', em),
    (''phone'', ph), (''nationality'', na), (''passport_number'', pn), (''visa_type'', vt),
    (''purpose_of_visit'', pv), (''duration_of_stay'', du), (''arrival_date'', ar),
    (''departure_date'', de), (''accommodation_details'', ac), (''sponsor_information'', sp),
    (''previous_uae_visit'', pu), (''criminal_record'', cr), (''medical_conditions'', mc),
    (''emergency_contact_name'', en), (''emergency_contact_phone'', ep),
    (''emergency_contact_relationship'', er), (''passport_copy_path'', pc), (''photo_path'', pp),
    (''cv_path'', cv), (''additional_documents_path'', ad), (''status'', st),
    (''created_at'', ca), (''updated_at'', ua)]"
  by (simp add: new_row_def visa_applications_schema_def col_def default_value_def)

lemma notnull_visa:
  "notnull_ok visa_applications_schema r =
     (getcol r ''id'' \<noteq> Null \<and> getcol r ''application_id'' \<noteq> Null
      \<and> getcol r ''full_name'' \<noteq> Null \<and> getcol r ''email'' \<noteq> Null
      \<and> getcol r ''phone'' \<noteq> Null \<and> getcol r ''nationality'' \<noteq> Null
      \<and> getcol r ''passport_number'' \<noteq> Null \<and> getcol r ''visa_type'' \<noteq> Null
      \<and> getcol r ''purpose_of_visit'' \<noteq> Null \<and> getcol r ''duration_of_stay'' \<noteq> Null
      \<and> getcol r ''arrival_date'' \<noteq> Null \<and> getcol r ''departure_date'' \<noteq> Null)"
  by (simp add: notnull_ok_def visa_applications_schema_def col_def)

lemma insert_first_visa:
  "sql_insert visa_applications_schema ts []
     [''application_id'', ''full_name'', ''email'', ''phone'', ''nationality'',
      ''passport_number'', ''visa_type'', ''purpose_of_visit'', ''duration_of_stay'',
      ''arrival_date'', ''departure_date'', ''accommodation_details'',
      ''sponsor_information'', ''previous_uae_visit'', ''criminal_record'',
      ''medical_conditions'', ''emergency_contact_name'', ''emergency_contact_phone'',
      ''emergency_contact_relationship'', ''passport_copy_path'', ''photo_path'',
      ''cv_path'', ''additional_documents_path'', ''status'', ''created_at'', ''updated_at'']
     [TextV i, TextV fn, TextV em, TextV ph, TextV na, TextV pn, TextV vt, TextV pv, IntV du,
      TextV ar, TextV de, ac, sp, pu, cr, mc, en, ep, er, pc, pp, cv, ad, st, ca, ua] =
   Inr [[(''id'', IntV 1), (''application_id'', TextV i), (''full_name'', TextV fn),
    (''email'', TextV em), (''phone'', TextV ph), (''nationality'', TextV na),
    (''passport_number'', TextV pn), (''visa_type'', TextV vt), (''purpose_of_visit'', TextV pv),
    (''duration_of_stay'', IntV du), (''arrival_date'', TextV ar), (''departure_date'', TextV de),
    (''accommodation_details'', ac), (''sponsor_information'', sp),
    (''previous_uae_visit'', pu), (''criminal_record'', cr), (''medical_conditions'', mc),
    (''emergency_contact_name'', en), (''emergency_contact_phone'', ep),
    (''emergency_contact_relationship'', er), (''passport_copy_path'', pc), (''photo_path'', pp),
    (''cv_path'', cv), (''additional_documents_path'', ad), (''status'', st),
    (''created_at'', ca), (''updated_at'', ua)]]"
proof -
  have m: "missing_column visa_applications_schema
     [''application_id'', ''full_name'', ''email'', ''phone'', ''nationality'',
      ''passport_number'', ''visa_type'', ''purpose_of_visit'', ''duration_of_stay'',
      ''arrival_date'', ''departure_date'', ''accommodation_details'',
      ''sponsor_information'', ''previous_uae_visit'', ''criminal_record'',
      ''medical_conditions'', ''emergency_contact_name'', ''emergency_contact_phone'',
      ''emergency_contact_relationship'', ''passport_copy_path'', ''photo_path'',
      ''cv_path'', ''additional_documents_path'', ''status'', ''created_at'', ''updated_at'']
      = None"
    by (simp add: missing_column_def visa_columns)
  have c: "tcheck visa_applications_schema = (\<lambda>r. True)"
    by (simp add: visa_applications_schema_def)
  have u: "unique_ok visa_applications_schema [] r" for r
    by (simp add: unique_ok_def list_all_iff)
  have n: "next_id [] = 1"
    by (simp add: next_id_def)
  show ?thesis
    unfolding sql_insert_def m new_visa_row n
    by (simp add: notnull_visa u c getcol_Cons Let_def)
qed

lemma insert_first_log:
  "sql_insert application_status_log_schema ts []
     [''application_id'', ''old_status'', ''new_status'', ''notes'', ''created_at'']
     [TextV i, old, TextV new, notes, ca] =
   Inr [[(''id'', IntV 1), (''application_id'', TextV i), (''old_status'', old),
         (''new_status'', TextV new), (''notes'', notes), (''changed_by'', TextV ''system''),
         (''created_at'', ca)]]"
proof -
  have m: "missing_column application_status_log_schema
     [''application_id'', ''old_status'', ''new_status'', ''notes'', ''created_at''] = None"
    by (simp add: missing_column_def column_names_def application_status_log_schema_def col_def)
  have r: "new_row application_status_log_schema ts []
      (zip [''application_id'', ''old_status'', ''new_status'', ''notes'', ''created_at'']
           [TextV i, old, TextV new, notes, ca]) =
      [(''id'', IntV 1), (''application_id'', TextV i), (''old_status'', old),
       (''new_status'', TextV new), (''notes'', notes), (''changed_by'', TextV ''system''),
       (''created_at'', ca)]"
    by (simp add: new_row_def application_status_log_schema_def col_def default_value_def
        next_id_def)
  have u: "unique_ok application_status_log_schema [] x" for x
    by (simp add: unique_ok_def list_all_iff)
  have c: "tcheck application_status_log_schema = (\<lambda>r. True)"
    by (simp add: application_status_log_schema_def)
  have n: "notnull_ok application_status_log_schema x =
      (getcol x ''id'' \<noteq> Null \<and> getcol x ''application_id'' \<noteq> Null
       \<and> getcol x ''new_status'' \<noteq> Null)" for x
    by (simp add: notnull_ok_def application_status_log_schema_def col_def)
  show ?thesis
    unfolding sql_insert_def m r
    by (simp add: n u c getcol_Cons Let_def)
qed

lemma sample_visa_id:
  "generate_id sample_env ''UAE'' 9 = ''UAE-1748736000000-A3Z07K11''"
  by (simp add: generate_id_def sample_env_def digits10.simps digit_char_def
      random_toString36_def digit36_def substr_def toUpperCase_def upper_char_def)

lemma sample_try_send:
  "try_send sample_env [m1, m2] label = ([m1, m2], [])"
  by (cases m1; cases m2) (simp add: try_send_def sample_env_def)

lemma visa_departure_error:
  assumes "departure_after_arrival E b (b ''departure_date'') = Some m"
  shows "ValidationError ''departure_date'' m (b ''departure_date'')
           \<in> set (fst (run_chains (visaValidationRules E) b))"
proof -
  let ?b = "snd (run_chains (take 9 (visaValidationRules E)) b)"
  have a: "?b ''arrival_date'' = b ''arrival_date''" and d: "?b ''departure_date'' = b ''departure_date''"
    by (simp_all add: visaValidationRules_def name_chain_def email_chain_def enum_chain_def
        text_chain_def phone_chain_def snd_run_chain)
  have c: "visaValidationRules E ! 9 =
      \<lparr>cfield = ''departure_date'', optional = False, steps =
         [Validate (isISO8601 E) ''Please provide a valid departure date'',
          Custom (departure_after_arrival E)]\<rparr>"
    by (simp add: visaValidationRules_def)
  have k: "departure_after_arrival E ?b (b ''departure_date'') = Some m"
    using assms by (simp add: departure_after_arrival_def a)
  have "ValidationError ''departure_date'' m (b ''departure_date'')
      \<in> set (chain_errors (visaValidationRules E) b 9)"
    unfolding chain_errors_def c by (simp add: fst_run_chain d k)
  moreover have "9 < length (visaValidationRules E)"
    by (simp add: visaValidationRules_def)
  ultimately show ?thesis
    using chain_errors_reported by blast
qed

lemma visa_departure_not_after_arrival:
  assumes "moment_of E (body req ''departure_date'') = Some x"
    and "moment_of E (body req ''arrival_date'') = Some a"
    and "x \<le> a"
  shows "statusCode (resp (visa_submit E req d)) = 400"
    and "\<lparr>field = ''departure_date'', message = ''Departure date must be after arrival date'',
          value = body req ''departure_date''\<rparr> \<in> set (errors (resp (visa_submit E req d)))"
    and "db_after (visa_submit E req d) = d"
proof -
  have "departure_after_arrival E (body req) (body req ''departure_date'')
      = Some ''Departure date must be after arrival date''"
    using assms by (simp add: departure_after_arrival_def)
  from visa_departure_error [OF this]
  have m: "ValidationError ''departure_date'' ''Departure date must be after arrival date''
      (body req ''departure_date'') \<in> set (fst (run_chains (visaValidationRules E) (body req)))" .
  then have n: "fst (run_chains (visaValidationRules E) (body req)) @ [] \<noteq> []"
    by auto
  note r = route_rejection [OF n, of E "visa_submit_handler E" d, folded visa_submit_def]
  from r show "statusCode (resp (visa_submit E req d)) = 400" by simp
  from r show "db_after (visa_submit E req d) = d" by simp
  from r have "errors (resp (visa_submit E req d))
      = map entry_of (fst (run_chains (visaValidationRules E) (body req)))"
    by simp
  with m have "entry_of (ValidationError ''departure_date''
      ''Departure date must be after arrival date'' (body req ''departure_date''))
      \<in> set (errors (resp (visa_submit E req d)))"
    by simp
  then show "\<lparr>field = ''departure_date'', message = ''Departure date must be after arrival date'',
          value = body req ''departure_date''\<rparr> \<in> set (errors (resp (visa_submit E req d)))"
    by (simp add: entry_of_def)
qed

lemma sample_visa_accepted:
  shows "resp (visa_submit sample_env visa_request sample_db) =
           success 201 ''Visa application submitted successfully''
             [(''application_id'', ''UAE-1748736000000-A3Z07K11''), (''status'', ''pending'')]"
    and "visa_applications (db_after (visa_submit sample_env visa_request sample_db)) =
      [[(''id'', IntV 1), (''application_id'', TextV ''UAE-1748736000000-A3Z07K11''),
        (''full_name'', TextV ''Jane Doe''), (''email'', TextV ''jane@example.com''),
        (''phone'', TextV ''+971501234567''), (''nationality'', TextV ''Indian''),
        (''passport_number'', TextV ''A1234567''), (''visa_type'', TextV ''tourist''),
        (''purpose_of_visit'', TextV ''Family holiday in Dubai''),
        (''duration_of_stay'', IntV 6), (''arrival_date'', TextV ''2025-06-10''),
        (''departure_date'', TextV ''2025-06-15''), (''accommodation_details'', Null),
        (''sponsor_information'', Null), (''previous_uae_visit'', TextV ''no''),
        (''criminal_record'', TextV ''no''), (''medical_conditions'', Null),
        (''emergency_contact_name'', TextV ''John Doe''),
        (''emergency_contact_phone'', TextV ''+971501234568''),
        (''emergency_contact_relationship'', TextV ''Brother''),
        (''passport_copy_path'', TextV ''passport_copy-1748736000000-1.pdf''),
        (''photo_path'', TextV ''photo-1748736000000-2.jpg''), (''cv_path'', Null),
        (''additional_documents_path'', Null), (''status'', TextV ''pending''),
        (''created_at'', TextV ''2025-06-01 00:00:00''),
        (''updated_at'', TextV ''2025-06-01 00:00:00'')]]"
proof -
  let ?b = "snd (run_chains (visaValidationRules sample_env) (body visa_request))"
  have v: "fst (run_chains (visaValidationRules sample_env) (body visa_request)) = []"
    using sample_visa_valid by (simp add: validation_errors_def)
  have run: "visa_submit sample_env visa_request sample_db =
      catchAsync sample_env (visa_submit_handler sample_env (visa_request\<lparr>body := ?b\<rparr>) sample_db)"
    unfolding visa_submit_def using v by (intro route_accept) simp
  have e: "normalizeEmail sample_env = (\<lambda>s. s)"
    "current_timestamp sample_env = ''2025-06-01 00:00:00''"
    by (simp_all add: sample_env_def)
  have vb: "?b ''full_name'' = Some ''Jane Doe''"
    "?b ''email'' = Some ''jane@example.com''"
    "?b ''phone'' = Some ''+971501234567''"
    "?b ''nationality'' = Some ''Indian''"
    "?b ''passport_number'' = Some ''A1234567''"
    "?b ''visa_type'' = Some ''tourist''"
    "?b ''purpose_of_visit'' = Some ''Family holiday in Dubai''"
    "?b ''duration_of_stay'' = Some ''6''"
    "?b ''arrival_date'' = Some ''2025-06-10''"
    "?b ''departure_date'' = Some ''2025-06-15''"
    "?b ''accommodation_details'' = None"
    "?b ''sponsor_information'' = None"
    "?b ''previous_uae_visit'' = Some ''no''"
    "?b ''criminal_record'' = Some ''no''"
    "?b ''medical_conditions'' = None"
    "?b ''emergency_contact_name'' = Some ''John Doe''"
    "?b ''emergency_contact_phone'' = Some ''+971501234568''"
    "?b ''emergency_contact_relationship'' = Some ''Brother''"
    unfolding visa_body visa_request_body to_string_simps sample_trims e by simp_all
  have f: "files visa_request ''passport_copy'' = [''passport_copy-1748736000000-1.pdf'']"
    "files visa_request ''photo'' = [''photo-1748736000000-2.jpg'']"
    "files visa_request ''cv'' = []"
    "files visa_request ''additional_documents'' = []"
    by (simp_all add: visa_request_def empty_request_def)
  have d: "visa_applications sample_db = []" "application_status_log sample_db = []"
    by (simp_all add: sample_db_def)
  have i: "bind_int (Some ''6'') = IntV 6"
    by (simp add: bind_int_def int_syntax_def number_of_def nat_of_digits_def digit_value_def
        is_digit_def)
  have h: "visa_submit_handler sample_env (visa_request\<lparr>body := ?b\<rparr>) sample_db =
      \<lparr>result = Inr (success 201 ''Visa application submitted successfully''
          [(''application_id'', ''UAE-1748736000000-A3Z07K11''), (''status'', ''pending'')]),
       store = sample_db\<lparr>visa_applications :=
      [[(''id'', IntV 1), (''application_id'', TextV ''UAE-1748736000000-A3Z07K11''),
        (''full_name'', TextV ''Jane Doe''), (''email'', TextV ''jane@example.com''),
        (''phone'', TextV ''+971501234567''), (''nationality'', TextV ''Indian''),
        (''passport_number'', TextV ''A1234567''), (''visa_type'', TextV ''tourist''),
        (''purpose_of_visit'', TextV ''Family holiday in Dubai''),
        (''duration_of_stay'', IntV 6), (''arrival_date'', TextV ''2025-06-10''),
        (''departure_date'', TextV ''2025-06-15''), (''accommodation_details'', Null),
        (''sponsor_information'', Null), (''previous_uae_visit'', TextV ''no''),
        (''criminal_record'', TextV ''no''), (''medical_conditions'', Null),
        (''emergency_contact_name'', TextV ''John Doe''),
        (''emergency_contact_phone'', TextV ''+971501234568''),
        (''emergency_contact_relationship'', TextV ''Brother''),
        (''passport_copy_path'', TextV ''passport_copy-1748736000000-1.pdf''),
        (''photo_path'', TextV ''photo-1748736000000-2.jpg''), (''cv_path'', Null),
        (''additional_documents_path'', Null), (''status'', TextV ''pending''),
        (''created_at'', TextV ''2025-06-01 00:00:00''),
        (''updated_at'', TextV ''2025-06-01 00:00:00'')]],
        application_status_log :=
          [[(''id'', IntV 1), (''application_id'', TextV ''UAE-1748736000000-A3Z07K11''),
            (''old_status'', Null), (''new_status'', TextV ''pending''),
            (''notes'', TextV ''Application submitted''), (''changed_by'', TextV ''system''),
            (''created_at'', TextV ''2025-06-01 00:00:00'')]]\<rparr>,
       outbox = [(''jane@example.com'',
                  ''UAE Visa Application Confirmation - UAE-1748736000000-A3Z07K11''),
                 (admin_address sample_env,
                  ''New Visa Application - UAE-1748736000000-A3Z07K11'')],
       console = []\<rparr>"
    by (simp add: visa_submit_handler_def Let_def vb f d i e(2) bind_def first_file_def
        sample_visa_id insert_first_visa insert_first_log sample_try_send)
  show "resp (visa_submit sample_env visa_request sample_db) =
           success 201 ''Visa application submitted successfully''
             [(''application_id'', ''UAE-1748736000000-A3Z07K11''), (''status'', ''pending'')]"
    unfolding run h by (simp add: catchAsync_def)
  show "visa_applications (db_after (visa_submit sample_env visa_request sample_db)) =
      [[(''id'', IntV 1), (''application_id'', TextV ''UAE-1748736000000-A3Z07K11''),
        (''full_name'', TextV ''Jane Doe''), (''email'', TextV ''jane@example.com''),
        (''phone'', TextV ''+971501234567''), (''nationality'', TextV ''Indian''),
        (''passport_number'', TextV ''A1234567''), (''visa_type'', TextV ''tourist''),
        (''purpose_of_visit'', TextV ''Family holiday in Dubai''),
        (''duration_of_stay'', IntV 6), (''arrival_date'', TextV ''2025-06-10''),
        (''departure_date'', TextV ''2025-06-15''), (''accommodation_details'', Null),
        (''sponsor_information'', Null), (''previous_uae_visit'', TextV ''no''),
        (''criminal_record'', TextV ''no''), (''medical_conditions'', Null),
        (''emergency_contact_name'', TextV ''John Doe''),
        (''emergency_contact_phone'', TextV ''+971501234568''),
        (''emergency_contact_relationship'', TextV ''Brother''),
        (''passport_copy_path'', TextV ''passport_copy-1748736000000-1.pdf''),
        (''photo_path'', TextV ''photo-1748736000000-2.jpg''), (''cv_path'', Null),
        (''additional_documents_path'', Null), (''status'', TextV ''pending''),
        (''created_at'', TextV ''2025-06-01 00:00:00''),
        (''updated_at'', TextV ''2025-06-01 00:00:00'')]]"
    unfolding run h by (simp add: catchAsync_def)
qed

text \<open>
  C1. The specification's scenario, evaluated: a visa application arriving on 2025-06-10
  and departing on 2025-06-15, five days later, that declares a stay of 6 days and is valid
  otherwise. The inline rules of routes/visa.js find no error, the route answers 201 with
  status \<open>pending\<close> and the row is stored with \<open>duration_of_stay\<close> 6. The rule
  \<open>durationMatchesDates\<close> of utils/validation.js, which the route does not use, rejects
  the same body with an error on \<open>duration_of_stay\<close>.
\<close>

theorem visa_duration_mismatch_accepted:
  "body visa_request ''arrival_date'' = Some ''2025-06-10''
   \<and> body visa_request ''departure_date'' = Some ''2025-06-15''
   \<and> body visa_request ''duration_of_stay'' = Some ''6''
   \<and> diff_days sample_env ''2025-06-15'' ''2025-06-10'' = Some 5
   \<and> validation_errors (visaValidationRules sample_env) visa_request = []
   \<and> statusCode (resp (visa_submit sample_env visa_request sample_db)) = 201
   \<and> errors (resp (visa_submit sample_env visa_request sample_db)) = []
   \<and> data (resp (visa_submit sample_env visa_request sample_db)) =
        [(''application_id'', ''UAE-1748736000000-A3Z07K11''), (''status'', ''pending'')]
   \<and> map (\<lambda>r. (getcol r ''duration_of_stay'', getcol r ''arrival_date'',
                getcol r ''departure_date'', getcol r ''status''))
        (visa_applications (db_after (visa_submit sample_env visa_request sample_db))) =
        [(IntV 6, TextV ''2025-06-10'', TextV ''2025-06-15'', TextV ''pending'')]
   \<and> fst (run_chain (durationMatchesDates sample_env) (body visa_request)) =
        [ValidationError ''duration_of_stay''
           ''Duration of stay (6 days) does not match the date range (5 days)'' (Some ''6'')]"
proof -
  have d: "diff_days sample_env ''2025-06-15'' ''2025-06-10'' = Some 5"
    by (simp add: sample_env_def sample_dates)
  have r: "statusCode (resp (visa_submit sample_env visa_request sample_db)) = 201"
    "errors (resp (visa_submit sample_env visa_request sample_db)) = []"
    "data (resp (visa_submit sample_env visa_request sample_db)) =
        [(''application_id'', ''UAE-1748736000000-A3Z07K11''), (''status'', ''pending'')]"
    unfolding sample_visa_accepted(1) by (simp_all add: success_def)
  have s: "map (\<lambda>r. (getcol r ''duration_of_stay'', getcol r ''arrival_date'',
                getcol r ''departure_date'', getcol r ''status''))
        (visa_applications (db_after (visa_submit sample_env visa_request sample_db))) =
        [(IntV 6, TextV ''2025-06-10'', TextV ''2025-06-15'', TextV ''pending'')]"
    unfolding sample_visa_accepted(2) by (simp add: getcol_Cons)
  from visa_request_body(9,10,8) d sample_visa_valid r s sample_duration_mismatch
  show ?thesis
    by (intro conjI)
qed
end
